theory Spec2Isabelle
  imports Complex_Main "HOL-Library.Multiset" "HOL-Library.Product_Lexorder"
    "HOL-Library.Char_ord" "HOL-Library.List_Lexorder"
begin

section \<open>Strings\<close>

text \<open>
  Python strings are modelled as \<open>string\<close> over ASCII. \<open>str.strip()\<close> removes the ASCII
  white space of Python (tab, line feed, vertical tab, form feed, carriage return, the four
  separators 0x1C..0x1F and the blank) at both ends; \<open>str.lower()\<close> and \<open>str.upper()\<close> map
  the letters A..Z and a..z and leave every other character alone. Case mapping of letters
  outside ASCII is not modelled.
\<close>

definition is_space :: "char \<Rightarrow> bool" where
  "is_space c \<longleftrightarrow>
     c \<in> set [CHR 0x09, CHR 0x0A, CHR 0x0B, CHR 0x0C, CHR 0x0D,
               CHR 0x1C, CHR 0x1D, CHR 0x1E, CHR 0x1F, CHR '' '']"

definition strip :: "string \<Rightarrow> string" where
  "strip s = rev (dropWhile is_space (rev (dropWhile is_space s)))"

definition lower_char :: "char \<Rightarrow> char" where
  "lower_char c =
     (let n = (of_char c :: nat) in if 65 \<le> n \<and> n \<le> 90 then char_of (n + 32) else c)"

definition upper_char :: "char \<Rightarrow> char" where
  "upper_char c =
     (let n = (of_char c :: nat) in if 97 \<le> n \<and> n \<le> 122 then char_of (n - 32) else c)"

definition lower :: "string \<Rightarrow> string" where
  "lower s = map lower_char s"

definition upper :: "string \<Rightarrow> string" where
  "upper s = map upper_char s"

definition startswith :: "string \<Rightarrow> string \<Rightarrow> bool" where
  "startswith s p \<longleftrightarrow> take (length p) s = p"

text \<open>\<open>contains s p\<close> is Python's \<open>p in s\<close>.\<close>

fun contains :: "string \<Rightarrow> string \<Rightarrow> bool" where
  "contains [] p = (p = [])"
| "contains (c # cs) p = (startswith (c # cs) p \<or> contains cs p)"

section \<open>Row classifier (data.py, \<open>_infer_group\<close>)\<close>

text \<open>
  \<open>_infer_group(row)\<close> reads three cells with \<open>str(row.get(k, ""))\<close>; the three arguments
  here are those strings, in the order REVENUE/EXPENSES, Short_CLASS, CLASS. The result
  \<open>None\<close> is Python's \<open>None\<close>.
\<close>

definition infer_group :: "string \<Rightarrow> string \<Rightarrow> string \<Rightarrow> string option" where
  "infer_group side_cell short_cell class_cell =
     (let side = lower (strip side_cell);
          short = upper (strip short_cell);
          full = lower (strip class_cell)
      in if side = ''revenue'' then Some ''Revenue''
         else if side = ''expenses'' then
           (if short = ''COS'' then Some ''COGS''
            else if short \<in> set [''G&A'', ''GA'', ''GNA''] then Some ''OPEX''
            else if startswith full ''cost of sales'' then Some ''COGS''
            else if contains full ''general & administrative''
                    \<or> contains full ''general and administrative'' then Some ''OPEX''
            else None)
         else None)"

text \<open>
  The classification rule in the words of the specification: only the side is trimmed;
  the short class is uppercased and the class text lowercased as they are.
\<close>

definition classify_spec :: "string \<Rightarrow> string \<Rightarrow> string \<Rightarrow> string option" where
  "classify_spec side short_class class_text =
     (if lower (strip side) = ''revenue'' then Some ''Revenue''
      else if lower (strip side) = ''expenses'' then
        (if upper short_class = ''COS'' then Some ''COGS''
         else if upper short_class = ''G&A'' \<or> upper short_class = ''GA''
                 \<or> upper short_class = ''GNA'' then Some ''OPEX''
         else if startswith (lower class_text) ''cost of sales'' then Some ''COGS''
         else if contains (lower class_text) ''general & administrative''
                 \<or> contains (lower class_text) ''general and administrative''
           then Some ''OPEX''
         else None)
      else None)"

section \<open>Cells, dates and errors\<close>

text \<open>
  A cell of a numeric column is a number, a blank (pandas' NaN) or, when the sheet holds
  text there, a string. A column that has passed through a pandas computation holds
  numbers and NaN only; it is modelled as \<open>real option\<close>, \<open>None\<close> being NaN. The amounts
  are real numbers and are added exactly; the sums of metrics.py with the rounding of
  float64 are modelled apart, in the section on float64 sums.
\<close>

datatype cell = Num real | NaN | Text string

datatype error = ValueError | TypeError | KeyError

text \<open>
  A parsed date is reduced to the two parts the program reads: \<open>.dt.year\<close> and
  \<open>.dt.month\<close>. The month of a date is one of the twelve calendar months.
\<close>

datatype month_name = Jan | Feb | Mar | Apr | May | Jun | Jul | Aug | Sep | Oct | Nov | Dec

record timestamp =
  ts_year :: int
  ts_month :: month_name

fun month_number :: "month_name \<Rightarrow> int" where
  "month_number Jan = 1" | "month_number Feb = 2" | "month_number Mar = 3"
| "month_number Apr = 4" | "month_number May = 5" | "month_number Jun = 6"
| "month_number Jul = 7" | "month_number Aug = 8" | "month_number Sep = 9"
| "month_number Oct = 10" | "month_number Nov = 11" | "month_number Dec = 12"

definition dt_year :: "timestamp option \<Rightarrow> int option" where
  "dt_year d = map_option ts_year d"

definition dt_month :: "timestamp option \<Rightarrow> int option" where
  "dt_month d = map_option (\<lambda>t. month_number (ts_month t)) d"

text \<open>\<open>Series.sum()\<close> skips NaN.\<close>

definition nansum :: "real option list \<Rightarrow> real" where
  "nansum xs = sum_list (map (\<lambda>x. case x of Some v \<Rightarrow> v | None \<Rightarrow> 0) xs)"

text \<open>
  \<open>df.apply(f, axis=1)\<close> calls \<open>f\<close> on the rows in order; the first exception ends it.
\<close>

fun apply_rows :: "('a \<Rightarrow> error + 'b) \<Rightarrow> 'a list \<Rightarrow> error + 'b list" where
  "apply_rows f [] = Inr []"
| "apply_rows f (x # xs) =
     (case f x of
        Inl e \<Rightarrow> Inl e
      | Inr y \<Rightarrow> (case apply_rows f xs of Inl e \<Rightarrow> Inl e | Inr ys \<Rightarrow> Inr (y # ys)))"

text \<open>
  \<open>df.groupby(keys, as_index=False)[col].sum()\<close>: rows with a null key are left out, the
  groups come in ascending order of their keys, and each sum skips NaN.
\<close>

definition groupby_sum ::
  "('r \<Rightarrow> ('k::linorder) option) \<Rightarrow> ('r \<Rightarrow> real option) \<Rightarrow> 'r list \<Rightarrow> ('k \<times> real) list" where
  "groupby_sum key val rs =
     map (\<lambda>k. (k, nansum (map val (filter (\<lambda>r. key r = Some k) rs))))
         (sort (remdups (List.map_filter key rs)))"

section \<open>Dataset loader (data.py, \<open>load_all\<close>)\<close>

text \<open>
  A row of the transaction sheet. \<open>Date\<close> is what \<open>pd.to_datetime(..., errors="coerce")\<close>
  makes of the Date cell (\<open>None\<close> is NaT); the three text fields are the strings
  \<open>str(cell)\<close> that the classifier reads; \<open>ACCOUNT\<close> is the line-item label, \<open>None\<close> when
  blank.
\<close>

record raw_tx =
  Date :: "timestamp option"
  AMOUNT :: cell
  REVENUE_EXPENSES :: string
  Short_CLASS :: string
  CLASS :: string
  ACCOUNT :: "string option"

record raw_table =
  tx_columns :: "string list"
  tx_rows :: "raw_tx list"

text \<open>A row of the canonical transaction table: the original columns and the derived ones.\<close>

record tx_row = raw_tx +
  date :: "timestamp option"
  year :: "int option"
  month :: "int option"
  account_group :: "string option"
  signed_amount :: "real option"

definition norm_cols :: "string list \<Rightarrow> string list" where
  "norm_cols cs = map strip cs"

definition py_abs :: "cell \<Rightarrow> error + real option" where
  "py_abs c = (case c of Num x \<Rightarrow> Inr (Some \<bar>x\<bar>) | NaN \<Rightarrow> Inr None | Text s \<Rightarrow> Inl TypeError)"

definition sign_amt :: "string option \<Rightarrow> cell \<Rightarrow> error + real option" where
  "sign_amt grp amt =
     (if grp = Some ''Revenue'' then py_abs amt
      else if grp \<in> set [Some ''COGS'', Some ''OPEX''] then
        (case py_abs amt of Inl e \<Rightarrow> Inl e | Inr a \<Rightarrow> Inr (map_option uminus a))
      else Inr None)"

text \<open>
  The columns a row has before the signed amount is computed: period, defaulted class
  columns and the account group.
\<close>

definition derive_row :: "string list \<Rightarrow> raw_tx \<Rightarrow> tx_row" where
  "derive_row cols r =
     (let short = (if ''Short_CLASS'' \<in> set cols then Short_CLASS r else '''');
          full = (if ''CLASS'' \<in> set cols then CLASS r else '''')
      in \<lparr> Date = Date r, AMOUNT = AMOUNT r, REVENUE_EXPENSES = REVENUE_EXPENSES r,
           Short_CLASS = short, CLASS = full, ACCOUNT = ACCOUNT r,
           date = Date r, year = dt_year (Date r), month = dt_month (Date r),
           account_group = infer_group (REVENUE_EXPENSES r) short full,
           signed_amount = None \<rparr>)"

definition sign_row :: "tx_row \<Rightarrow> error + tx_row" where
  "sign_row r =
     (case sign_amt (account_group r) (AMOUNT r) of
        Inl e \<Rightarrow> Inl e
      | Inr s \<Rightarrow> Inr (r\<lparr>signed_amount := s\<rparr>))"

definition dropna_signed :: "tx_row list \<Rightarrow> tx_row list" where
  "dropna_signed rs = filter (\<lambda>r. signed_amount r \<noteq> None) rs"

definition load_tx :: "raw_table \<Rightarrow> error + tx_row list" where
  "load_tx raw =
     (let cols = norm_cols (tx_columns raw) in
      if ''Date'' \<notin> set cols \<or> ''AMOUNT'' \<notin> set cols \<or> ''REVENUE/EXPENSES'' \<notin> set cols
      then Inl ValueError
      else (case apply_rows sign_row (map (derive_row cols) (tx_rows raw)) of
              Inl e \<Rightarrow> Inl e
            | Inr rs \<Rightarrow> Inr (dropna_signed rs)))"

text \<open>
  A row of the budget sheet. \<open>b_Date\<close> is the parsed DATE (or else Date) cell and
  \<open>b_amount\<close> the cell of the budget column in use (BUDGET, or else budget\_amount), a
  numeric column.
\<close>

record raw_bd =
  b_Date :: "timestamp option"
  b_REVENUE_EXPENSES :: string
  b_Short_CLASS :: string
  b_CLASS :: string
  b_amount :: "real option"

record raw_budget =
  bd_columns :: "string list"
  bd_rows :: "raw_bd list"

text \<open>
  A row of the budget table. The table \<open>load_all\<close> builds has the columns year,
  account\_group and budget\_amount; an uploaded budget may carry a month column as well,
  so \<open>bd_month\<close> is \<open>None\<close> in every row that \<open>load_all\<close> builds.
\<close>

record bd_row =
  bd_year :: int
  bd_month :: "int option"
  bd_group :: string
  budget_amount :: real

definition b_date :: "string list \<Rightarrow> raw_bd \<Rightarrow> timestamp option" where
  "b_date cols r =
     (if ''DATE'' \<in> set cols then b_Date r
      else if ''Date'' \<in> set cols then b_Date r
      else None)"

definition b_group :: "string list \<Rightarrow> raw_bd \<Rightarrow> string option" where
  "b_group cols r =
     infer_group (if ''REVENUE/EXPENSES'' \<in> set cols then b_REVENUE_EXPENSES r else '''')
                 (if ''Short_CLASS'' \<in> set cols then b_Short_CLASS r else '''')
                 (if ''CLASS'' \<in> set cols then b_CLASS r else '''')"

definition b_budget :: "string list \<Rightarrow> raw_bd \<Rightarrow> real option" where
  "b_budget cols r =
     (let bud_col = (if ''BUDGET'' \<in> set cols then ''BUDGET'' else ''budget_amount'')
      in if bud_col \<notin> set cols then Some 0 else b_amount r)"

definition b_key :: "string list \<Rightarrow> raw_bd \<Rightarrow> (int \<times> string) option" where
  "b_key cols r =
     (case (dt_year (b_date cols r), b_group cols r) of
        (Some y, Some g) \<Rightarrow> Some (y, g)
      | _ \<Rightarrow> None)"

definition mk_bd_row :: "(int \<times> string) \<times> real \<Rightarrow> bd_row" where
  "mk_bd_row kv =
     \<lparr> bd_year = fst (fst kv), bd_month = None, bd_group = snd (fst kv),
       budget_amount = snd kv \<rparr>"

text \<open>The budget file is optional: \<open>None\<close> stands for a path that does not exist.\<close>

definition load_bd :: "raw_budget option \<Rightarrow> bd_row list" where
  "load_bd budget =
     (case budget of
        None \<Rightarrow> []
      | Some b \<Rightarrow>
          (let cols = norm_cols (bd_columns b) in
           map mk_bd_row
             (groupby_sum (b_key cols) (b_budget cols)
                (filter (\<lambda>r. b_group cols r \<noteq> None) (bd_rows b)))))"

definition load_all :: "raw_table \<Rightarrow> raw_budget option \<Rightarrow> error + (tx_row list \<times> bd_row list)" where
  "load_all raw budget =
     (case load_tx raw of
        Inl e \<Rightarrow> Inl e
      | Inr tx \<Rightarrow> Inr (tx, load_bd budget))"

section \<open>Aggregation (metrics.py)\<close>

record kpi =
  Revenue :: real
  Gross_Profit :: real
  EBIT :: real

text \<open>\<open>df.loc[df["account_group"].eq(g), "signed_amount"].sum()\<close>\<close>

definition group_sum :: "string \<Rightarrow> tx_row list \<Rightarrow> real" where
  "group_sum g df = nansum (map signed_amount (filter (\<lambda>r. account_group r = Some g) df))"

definition kpis :: "tx_row list \<Rightarrow> kpi" where
  "kpis df =
     (let rev = group_sum ''Revenue'' df;
          cogs = group_sum ''COGS'' df;
          opex = group_sum ''OPEX'' df;
          gross_profit = rev + cogs;
          ebit = gross_profit + opex
      in \<lparr> Revenue = rev, Gross_Profit = gross_profit, EBIT = ebit \<rparr>)"

section \<open>Example tables\<close>

definition jan24 :: "timestamp option" where
  "jan24 = Some \<lparr>ts_year = 2024, ts_month = Jan\<rparr>"

definition scenario_raw :: raw_table where
  "scenario_raw =
     \<lparr> tx_columns = [''Date'', ''AMOUNT'', ''REVENUE/EXPENSES'', ''Short_CLASS''],
       tx_rows =
         [\<lparr> Date = jan24, AMOUNT = Num 1000,
            REVENUE_EXPENSES = ''revenue'', Short_CLASS = '''', CLASS = '''', ACCOUNT = None \<rparr>,
          \<lparr> Date = jan24, AMOUNT = Num 400,
            REVENUE_EXPENSES = ''expenses'', Short_CLASS = ''COS'', CLASS = '''', ACCOUNT = None \<rparr>,
          \<lparr> Date = jan24, AMOUNT = Num 200,
            REVENUE_EXPENSES = ''expenses'', Short_CLASS = ''G&A'', CLASS = '''', ACCOUNT = None \<rparr>] \<rparr>"

definition scenario_tx :: "tx_row list" where
  "scenario_tx =
     [\<lparr> Date = jan24, AMOUNT = Num 1000,
        REVENUE_EXPENSES = ''revenue'', Short_CLASS = '''', CLASS = '''', ACCOUNT = None,
        date = jan24, year = Some 2024, month = Some 1,
        account_group = Some ''Revenue'', signed_amount = Some 1000 \<rparr>,
      \<lparr> Date = jan24, AMOUNT = Num 400,
        REVENUE_EXPENSES = ''expenses'', Short_CLASS = ''COS'', CLASS = '''', ACCOUNT = None,
        date = jan24, year = Some 2024, month = Some 1,
        account_group = Some ''COGS'', signed_amount = Some (- 400) \<rparr>,
      \<lparr> Date = jan24, AMOUNT = Num 200,
        REVENUE_EXPENSES = ''expenses'', Short_CLASS = ''G&A'', CLASS = '''', ACCOUNT = None,
        date = jan24, year = Some 2024, month = Some 1,
        account_group = Some ''OPEX'', signed_amount = Some (- 200) \<rparr>]"

definition zero_raw :: raw_table where
  "zero_raw =
     \<lparr> tx_columns = [''Date'', ''AMOUNT'', ''REVENUE/EXPENSES''],
       tx_rows =
         [\<lparr> Date = jan24, AMOUNT = Num 0,
            REVENUE_EXPENSES = ''revenue'', Short_CLASS = '''', CLASS = '''', ACCOUNT = None \<rparr>] \<rparr>"

definition zero_tx :: tx_row where
  "zero_tx =
     \<lparr> Date = jan24, AMOUNT = Num 0,
       REVENUE_EXPENSES = ''revenue'', Short_CLASS = '''', CLASS = '''', ACCOUNT = None,
       date = jan24, year = Some 2024, month = Some 1,
       account_group = Some ''Revenue'', signed_amount = Some 0 \<rparr>"

text \<open>The sign invariant in the words of the specification.\<close>
definition sign_matches_group :: "tx_row \<Rightarrow> bool" where
  "sign_matches_group r =
     (case signed_amount r of
        None \<Rightarrow> False
      | Some s \<Rightarrow> sgn s = (if account_group r = Some ''Revenue'' then 1 else - 1))"

section \<open>Period slices (app.py, \<open>slice_period\<close>)\<close>

definition qmap :: "string \<Rightarrow> int list option" where
  "qmap = map_of [(''Q1'', [1, 2, 3]), (''Q2'', [4, 5, 6]), (''Q3'', [7, 8, 9]),
                  (''Q4'', [10, 11, 12])]"

text \<open>\<open>df[df["month"].isin(ms)]\<close>: a null month is in no list.\<close>

definition month_isin :: "int list \<Rightarrow> tx_row \<Rightarrow> bool" where
  "month_isin ms r = (case month r of None \<Rightarrow> False | Some k \<Rightarrow> k \<in> set ms)"

text \<open>
  \<open>q\<close> and \<open>m\<close> are \<open>None\<close> when the caller leaves them out; Python takes the empty
  string and the number 0 for false as well.
\<close>

definition slice_period ::
  "tx_row list \<Rightarrow> int \<Rightarrow> string \<Rightarrow> string option \<Rightarrow> int option \<Rightarrow> error + tx_row list" where
  "slice_period df y granularity q m =
     (let df1 = filter (\<lambda>r. year r = Some y) df in
      case (if granularity = ''Quarter'' \<and> q \<noteq> None \<and> q \<noteq> Some ''''
            then (case qmap (the q) of
                    None \<Rightarrow> Inl KeyError
                  | Some ms \<Rightarrow> Inr (filter (month_isin ms) df1))
            else Inr df1) of
        Inl e \<Rightarrow> Inl e
      | Inr df2 \<Rightarrow>
          Inr (if granularity = ''Month'' \<and> m \<noteq> None \<and> m \<noteq> Some 0
               then filter (\<lambda>r. month r = m) df2
               else df2))"

definition quarters_raw :: raw_table where
  "quarters_raw =
     \<lparr> tx_columns = [''Date'', ''AMOUNT'', ''REVENUE/EXPENSES''],
       tx_rows =
         [\<lparr> Date = Some \<lparr>ts_year = 2024, ts_month = Feb\<rparr>, AMOUNT = Num 10,
            REVENUE_EXPENSES = ''revenue'', Short_CLASS = '''', CLASS = '''', ACCOUNT = None \<rparr>,
          \<lparr> Date = Some \<lparr>ts_year = 2024, ts_month = Nov\<rparr>, AMOUNT = Num 20,
            REVENUE_EXPENSES = ''revenue'', Short_CLASS = '''', CLASS = '''', ACCOUNT = None \<rparr>,
          \<lparr> Date = Some \<lparr>ts_year = 2023, ts_month = Feb\<rparr>, AMOUNT = Num 30,
            REVENUE_EXPENSES = ''revenue'', Short_CLASS = '''', CLASS = '''', ACCOUNT = None \<rparr>,
          \<lparr> Date = None, AMOUNT = Num 40,
            REVENUE_EXPENSES = ''revenue'', Short_CLASS = '''', CLASS = '''', ACCOUNT = None \<rparr>,
          \<lparr> Date = Some \<lparr>ts_year = 2024, ts_month = Jun\<rparr>, AMOUNT = Num 50,
            REVENUE_EXPENSES = ''revenue'', Short_CLASS = '''', CLASS = '''', ACCOUNT = None \<rparr>] \<rparr>"

definition rev_row :: "timestamp option \<Rightarrow> int option \<Rightarrow> int option \<Rightarrow> real \<Rightarrow> tx_row" where
  "rev_row d y m a =
     \<lparr> Date = d, AMOUNT = Num a,
       REVENUE_EXPENSES = ''revenue'', Short_CLASS = '''', CLASS = '''', ACCOUNT = None,
       date = d, year = y, month = m,
       account_group = Some ''Revenue'', signed_amount = Some a \<rparr>"

definition quarters_tx :: "tx_row list" where
  "quarters_tx =
     [rev_row (Some \<lparr>ts_year = 2024, ts_month = Feb\<rparr>) (Some 2024) (Some 2) 10,
      rev_row (Some \<lparr>ts_year = 2024, ts_month = Nov\<rparr>) (Some 2024) (Some 11) 20,
      rev_row (Some \<lparr>ts_year = 2023, ts_month = Feb\<rparr>) (Some 2023) (Some 2) 30,
      rev_row None None None 40,
      rev_row (Some \<lparr>ts_year = 2024, ts_month = Jun\<rparr>) (Some 2024) (Some 6) 50]"

section \<open>Monthly profit and loss (metrics.py, \<open>monthly_pnl\<close>)\<close>

record pnl_row =
  p_year :: int
  p_month :: int
  p_Revenue :: real
  p_COGS :: real
  p_OPEX :: real
  p_Gross_Profit :: real
  p_EBIT :: real

text \<open>The grouping key \<open>["year", "month", "account_group"]\<close>: null when one of the three is.\<close>

definition key3 :: "tx_row \<Rightarrow> (int \<times> int \<times> string) option" where
  "key3 r =
     (case (year r, month r, account_group r) of
        (Some y, Some m, Some g) \<Rightarrow> Some (y, m, g)
      | _ \<Rightarrow> None)"

definition mean :: "real list \<Rightarrow> real" where
  "mean vs = sum_list vs / real (length vs)"

text \<open>
  \<open>pivot_table(index=["year","month"], columns="account_group", values="signed_amount",
  fill_value=0)\<close> aggregates with the mean (the default \<open>aggfunc\<close>) the values of the
  grouped table that fall into a cell, and writes 0 into a cell with no value. A group
  column that is missing altogether is then added as 0, which is the same value.
\<close>

definition pivot_cell :: "((int \<times> int \<times> string) \<times> real) list \<Rightarrow> int \<times> int \<Rightarrow> string \<Rightarrow> real" where
  "pivot_cell g ym a =
     (let vs = map snd (filter (\<lambda>kv. fst kv = (fst ym, snd ym, a)) g)
      in if vs = [] then 0 else mean vs)"

definition pivot_index :: "((int \<times> int \<times> string) \<times> real) list \<Rightarrow> (int \<times> int) list" where
  "pivot_index g = sort (remdups (map (\<lambda>kv. (fst (fst kv), fst (snd (fst kv)))) g))"

definition monthly_pnl :: "tx_row list \<Rightarrow> pnl_row list" where
  "monthly_pnl df =
     (let g = groupby_sum key3 signed_amount df in
      map (\<lambda>ym.
             (let rev = pivot_cell g ym ''Revenue'';
                  cogs = pivot_cell g ym ''COGS'';
                  opex = pivot_cell g ym ''OPEX'';
                  gross_profit = rev + cogs;
                  ebit = gross_profit + opex
              in \<lparr> p_year = fst ym, p_month = snd ym, p_Revenue = rev, p_COGS = cogs,
                   p_OPEX = opex, p_Gross_Profit = gross_profit, p_EBIT = ebit \<rparr>))
          (pivot_index g))"

text \<open>The sum of the signed amounts of one group in one month.\<close>

definition month_group_sum :: "tx_row list \<Rightarrow> int \<Rightarrow> int \<Rightarrow> string \<Rightarrow> real" where
  "month_group_sum df y m a =
     nansum (map signed_amount
       (filter (\<lambda>r. year r = Some y \<and> month r = Some m \<and> account_group r = Some a) df))"

definition period_of :: "pnl_row \<Rightarrow> int \<times> int" where
  "period_of p = (p_year p, p_month p)"

definition amount_or_zero :: "tx_row \<Rightarrow> real" where
  "amount_or_zero r = (case signed_amount r of Some v \<Rightarrow> v | None \<Rightarrow> 0)"

definition quarters_pnl :: "pnl_row list" where
  "quarters_pnl =
     [\<lparr> p_year = 2023, p_month = 2, p_Revenue = 30, p_COGS = 0, p_OPEX = 0,
        p_Gross_Profit = 30, p_EBIT = 30 \<rparr>,
      \<lparr> p_year = 2024, p_month = 2, p_Revenue = 10, p_COGS = 0, p_OPEX = 0,
        p_Gross_Profit = 10, p_EBIT = 10 \<rparr>,
      \<lparr> p_year = 2024, p_month = 6, p_Revenue = 50, p_COGS = 0, p_OPEX = 0,
        p_Gross_Profit = 50, p_EBIT = 50 \<rparr>,
      \<lparr> p_year = 2024, p_month = 11, p_Revenue = 20, p_COGS = 0, p_OPEX = 0,
        p_Gross_Profit = 20, p_EBIT = 20 \<rparr>]"

section \<open>Budget aggregation as the specification words it\<close>

text \<open>
  The budget aggregation in the words of the specification: a budget row with a date has a
  month, and the rows are grouped by (year, month, account\_group).
\<close>

definition b_key_month :: "string list \<Rightarrow> raw_bd \<Rightarrow> (int \<times> int \<times> string) option" where
  "b_key_month cols r =
     (case (dt_year (b_date cols r), dt_month (b_date cols r), b_group cols r) of
        (Some y, Some m, Some g) \<Rightarrow> Some (y, m, g)
      | _ \<Rightarrow> None)"

definition mk_bd_row_month :: "(int \<times> int \<times> string) \<times> real \<Rightarrow> bd_row" where
  "mk_bd_row_month kv =
     \<lparr> bd_year = fst (fst kv), bd_month = Some (fst (snd (fst kv))),
       bd_group = snd (snd (fst kv)), budget_amount = snd kv \<rparr>"

definition budget_by_month_spec :: "raw_budget \<Rightarrow> bd_row list" where
  "budget_by_month_spec b =
     (let cols = norm_cols (bd_columns b) in
      map mk_bd_row_month (groupby_sum (b_key_month cols) (b_budget cols) (bd_rows b)))"

definition jan_budget :: raw_bd where
  "jan_budget =
     \<lparr> b_Date = Some \<lparr>ts_year = 2024, ts_month = Jan\<rparr>, b_REVENUE_EXPENSES = ''revenue'',
       b_Short_CLASS = '''', b_CLASS = '''', b_amount = Some 100 \<rparr>"

definition feb_budget :: raw_bd where
  "feb_budget =
     \<lparr> b_Date = Some \<lparr>ts_year = 2024, ts_month = Feb\<rparr>, b_REVENUE_EXPENSES = ''revenue'',
       b_Short_CLASS = '''', b_CLASS = '''', b_amount = Some 200 \<rparr>"

definition budget_cols :: "string list" where
  "budget_cols = [''DATE'', ''REVENUE/EXPENSES'', ''BUDGET'']"

definition two_month_budget :: raw_budget where
  "two_month_budget = \<lparr> bd_columns = budget_cols, bd_rows = [jan_budget, feb_budget] \<rparr>"

definition bd_key :: "bd_row \<Rightarrow> int \<times> int option \<times> string" where
  "bd_key r = (bd_year r, bd_month r, bd_group r)"

section \<open>Statement of profit and loss (app.py, \<open>section_rows\<close> and the totals)\<close>

text \<open>
  \<open>groupby("ACCOUNT", dropna=False)\<close> keeps the rows without an account as one group, after
  the named ones; \<open>groupby("ACCOUNT")\<close> leaves them out.
\<close>

definition account_keys :: "bool \<Rightarrow> tx_row list \<Rightarrow> string option list" where
  "account_keys keep_na part =
     map Some (sort (remdups (List.map_filter ACCOUNT part)))
     @ (if keep_na \<and> None \<in> set (map ACCOUNT part) then [None] else [])"

definition by_account :: "bool \<Rightarrow> tx_row list \<Rightarrow> (string option \<times> real) list" where
  "by_account keep_na part =
     map (\<lambda>k. (k, nansum (map signed_amount (filter (\<lambda>r. ACCOUNT r = k) part))))
         (account_keys keep_na part)"

text \<open>
  \<open>sort_values("signed_amount", ascending=False)\<close>, and the label
  \<open>str(a if pd.notna(a) else "Unknown")\<close>. Rows of equal value are kept in their order.
\<close>

definition line_rows :: "(string option \<times> real) list \<Rightarrow> (string \<times> real) list" where
  "line_rows by_line =
     map (\<lambda>kv. (case fst kv of Some a \<Rightarrow> a | None \<Rightarrow> ''Unknown'', snd kv))
         (sort_key (\<lambda>kv. - snd kv) by_line)"

definition section_rows :: "tx_row list \<Rightarrow> string \<Rightarrow> (string \<times> real) list \<times> real" where
  "section_rows df group_name =
     (let part = filter (\<lambda>r. account_group r = Some group_name) df in
      if part = [] then ([], 0)
      else (let rows = line_rows (by_account True part);
                subtotal = sum_list (map snd rows)
            in (rows, subtotal)))"

record pl_statement =
  rev_rows :: "(string \<times> real) list"
  rev_total :: real
  cogs_rows :: "(string \<times> real) list"
  cogs_total :: real
  opex_rows :: "(string \<times> real) list"
  opex_total :: real
  other_rows :: "(string \<times> real) list"
  other_total :: real
  gross_profit :: real
  net_profit :: real

text \<open>
  The canonical table always has a Short\_CLASS column, so Other Income is detected there:
  \<open>S["Short_CLASS"].str.contains("other income", case=False, na=False)\<close>.
\<close>

definition build_pl :: "tx_row list \<Rightarrow> pl_statement" where
  "build_pl S =
     (let (rev_rows, rev_total) = section_rows S ''Revenue'';
          (cogs_rows, cogs_total) = section_rows S ''COGS'';
          (opex_rows, opex_total) = section_rows S ''OPEX'';
          other_inc = filter (\<lambda>r. contains (lower (Short_CLASS r)) ''other income'') S;
          other_rows = (if other_inc \<noteq> [] then line_rows (by_account False other_inc) else []);
          other_total = (if other_inc \<noteq> [] then sum_list (map snd other_rows) else 0);
          gross_profit = rev_total - cogs_total;
          net_profit = gross_profit + other_total - opex_total
      in \<lparr> rev_rows = rev_rows, rev_total = rev_total, cogs_rows = cogs_rows,
           cogs_total = cogs_total, opex_rows = opex_rows, opex_total = opex_total,
           other_rows = other_rows, other_total = other_total,
           gross_profit = gross_profit, net_profit = net_profit \<rparr>)"

definition pl_columns :: "string list" where
  "pl_columns = [''Date'', ''AMOUNT'', ''REVENUE/EXPENSES'', ''Short_CLASS'', ''ACCOUNT'']"

definition sales_raw :: raw_tx where
  "sales_raw = \<lparr> Date = jan24, AMOUNT = Num 1000, REVENUE_EXPENSES = ''revenue'',
                 Short_CLASS = '''', CLASS = '''', ACCOUNT = Some ''Sales'' \<rparr>"

definition materials_raw :: raw_tx where
  "materials_raw = \<lparr> Date = jan24, AMOUNT = Num 400, REVENUE_EXPENSES = ''expenses'',
                     Short_CLASS = ''COS'', CLASS = '''', ACCOUNT = Some ''Materials'' \<rparr>"

definition rent_raw :: raw_tx where
  "rent_raw = \<lparr> Date = jan24, AMOUNT = Num 200, REVENUE_EXPENSES = ''expenses'',
                Short_CLASS = ''G&A'', CLASS = '''', ACCOUNT = Some ''Rent'' \<rparr>"

definition pl_raw :: raw_table where
  "pl_raw = \<lparr> tx_columns = pl_columns, tx_rows = [sales_raw, materials_raw, rent_raw] \<rparr>"

definition sales_tx :: tx_row where
  "sales_tx = \<lparr> Date = jan24, AMOUNT = Num 1000, REVENUE_EXPENSES = ''revenue'',
                Short_CLASS = '''', CLASS = '''', ACCOUNT = Some ''Sales'',
                date = jan24, year = Some 2024, month = Some 1,
                account_group = Some ''Revenue'', signed_amount = Some 1000 \<rparr>"

definition materials_tx :: tx_row where
  "materials_tx = \<lparr> Date = jan24, AMOUNT = Num 400, REVENUE_EXPENSES = ''expenses'',
                    Short_CLASS = ''COS'', CLASS = '''', ACCOUNT = Some ''Materials'',
                    date = jan24, year = Some 2024, month = Some 1,
                    account_group = Some ''COGS'', signed_amount = Some (- 400) \<rparr>"

definition rent_tx :: tx_row where
  "rent_tx = \<lparr> Date = jan24, AMOUNT = Num 200, REVENUE_EXPENSES = ''expenses'',
               Short_CLASS = ''G&A'', CLASS = '''', ACCOUNT = Some ''Rent'',
               date = jan24, year = Some 2024, month = Some 1,
               account_group = Some ''OPEX'', signed_amount = Some (- 200) \<rparr>"

definition pl_tx :: "tx_row list" where
  "pl_tx = [sales_tx, materials_tx, rent_tx]"

section \<open>Period slices as the specification words them\<close>

text \<open>
  The year slice is the exact match on the year; a quarter slice is the year slice
  intersected with the rows whose month is in the quarter's month set.
\<close>

definition year_rows :: "int \<Rightarrow> tx_row list \<Rightarrow> tx_row list" where
  "year_rows y t = filter (\<lambda>r. year r = Some y) t"

definition quarter_rows :: "int \<Rightarrow> int list \<Rightarrow> tx_row list \<Rightarrow> tx_row list" where
  "quarter_rows y ms t = filter (\<lambda>r. year r = Some y \<and> month r \<in> Some ` set ms) t"

text \<open>
  Two rows of a table that did not come from \<open>load_all\<close>: an uploaded sheet with year and
  month columns and no date column keeps the cells it has, so a month can be blank or
  outside 1..12.
\<close>

definition blank_month_row :: tx_row where
  "blank_month_row =
     \<lparr> Date = None, AMOUNT = Num 5, REVENUE_EXPENSES = ''revenue'', Short_CLASS = '''',
       CLASS = '''', ACCOUNT = None, date = None, year = Some 2024, month = None,
       account_group = Some ''Revenue'', signed_amount = Some 5 \<rparr>"

definition month13_row :: tx_row where
  "month13_row =
     \<lparr> Date = None, AMOUNT = Num 7, REVENUE_EXPENSES = ''revenue'', Short_CLASS = '''',
       CLASS = '''', ACCOUNT = None, date = None, year = Some 2024, month = Some 13,
       account_group = Some ''Revenue'', signed_amount = Some 7 \<rparr>"

definition uploaded_rows :: "tx_row list" where
  "uploaded_rows = [blank_month_row, month13_row]"

section \<open>Float64 sums (metrics.py on float64 columns)\<close>

text \<open>
  The amounts of a pandas column are IEEE 754 binary64 numbers, and every sum of the
  program rounds after each addition. A finite binary64 number is \<open>mant * 2 ^ expo\<close>; it is
  kept normalised: \<open>mant = 0\<close> and \<open>expo = 0\<close>, or \<open>2 ^ 52 \<le> \<bar>mant\<bar> < 2 ^ 53\<close>, so that two
  numbers are equal exactly when their records are. The exponent is unbounded: overflow
  and subnormal numbers are not modelled, nor are infinities and the sign of zero.
\<close>

record f64 =
  mant :: int
  expo :: int

definition f64_zero :: f64 where
  "f64_zero = \<lparr>mant = 0, expo = 0\<rparr>"

text \<open>The number of binary digits of a natural number.\<close>

fun bits :: "nat \<Rightarrow> nat" where
  "bits n = (if n = 0 then 0 else Suc (bits (n div 2)))"

text \<open>
  The binary64 number nearest to \<open>m * 2 ^ e\<close>, a tie going to the even mantissa (the
  rounding of every binary64 operation).
\<close>

definition f64_round :: "int \<Rightarrow> int \<Rightarrow> f64" where
  "f64_round m e =
     (if m = 0 then f64_zero
      else
        (let n = bits (nat \<bar>m\<bar>) in
         if n \<le> 53 then \<lparr>mant = m * 2 ^ (53 - n), expo = e - int (53 - n)\<rparr>
         else
           (let k = n - 53;
                q = \<bar>m\<bar> div 2 ^ k;
                r = \<bar>m\<bar> mod 2 ^ k;
                half = 2 ^ (k - 1);
                q' = (if half < r \<or> (r = half \<and> odd q) then q + 1 else q)
            in if q' = 2 ^ 53 then \<lparr>mant = sgn m * 2 ^ 52, expo = e + int k + 1\<rparr>
               else \<lparr>mant = sgn m * q', expo = e + int k\<rparr>)))"

definition f64_add :: "f64 \<Rightarrow> f64 \<Rightarrow> f64" where
  "f64_add a b =
     (let e = min (expo a) (expo b)
      in f64_round (mant a * 2 ^ nat (expo a - e) + mant b * 2 ^ nat (expo b - e)) e)"

definition f64_sub :: "f64 \<Rightarrow> f64 \<Rightarrow> f64" where
  "f64_sub a b = f64_add a (b\<lparr>mant := - mant b\<rparr>)"

text \<open>
  \<open>a / b\<close> for \<open>b\<close> other than zero: the quotient of the mantissas to 56 digits and more,
  with one more digit that says whether anything is left, rounded.
\<close>

definition f64_div :: "f64 \<Rightarrow> f64 \<Rightarrow> f64" where
  "f64_div a b =
     (let q = (\<bar>mant a\<bar> * 2 ^ 56) div \<bar>mant b\<bar>;
          r = (\<bar>mant a\<bar> * 2 ^ 56) mod \<bar>mant b\<bar>
      in f64_round (sgn (mant a) * sgn (mant b) * (2 * q + (if r = 0 then 0 else 1)))
           (expo a - expo b - 57))"

definition f64_of_nat :: "nat \<Rightarrow> f64" where
  "f64_of_nat n = f64_round (int n) 0"

text \<open>
  \<open>Series.sum()\<close>: NaN counts as 0 and the cells are added from the first to the last,
  starting from 0. (That is the order in which numpy adds a column of fewer than eight
  cells; it adds a longer column in blocks.)
\<close>

definition nansum_f64 :: "f64 option list \<Rightarrow> f64" where
  "nansum_f64 xs = foldl f64_add f64_zero (map (\<lambda>x. case x of Some v \<Rightarrow> v | None \<Rightarrow> f64_zero) xs)"

text \<open>
  The sum of one group of \<open>groupby(...).sum()\<close> and of \<open>groupby(...).mean()\<close>: pandas adds
  the cells of a group, NaN left out, with a running compensation (Kahan's summation).
\<close>

definition kahan_step :: "f64 \<times> f64 \<Rightarrow> f64 \<Rightarrow> f64 \<times> f64" where
  "kahan_step sc v =
     (let y = f64_sub v (snd sc);
          t = f64_add (fst sc) y
      in (t, f64_sub (f64_sub t (fst sc)) y))"

definition kahan_sum :: "f64 list \<Rightarrow> f64" where
  "kahan_sum vs = fst (foldl kahan_step (f64_zero, f64_zero) vs)"

definition groupby_sum_f64 ::
  "('r \<Rightarrow> ('k::linorder) option) \<Rightarrow> ('r \<Rightarrow> f64 option) \<Rightarrow> 'r list \<Rightarrow> ('k \<times> f64) list" where
  "groupby_sum_f64 key val rs =
     map (\<lambda>k. (k, kahan_sum (List.map_filter val (filter (\<lambda>r. key r = Some k) rs))))
         (sort (remdups (List.map_filter key rs)))"

text \<open>The four columns that metrics.py reads, the amount a float64 cell (\<open>None\<close> is NaN).\<close>

record f_row =
  f_year :: "int option"
  f_month :: "int option"
  f_group :: "string option"
  f_amount :: "f64 option"

record f_kpi =
  f_Revenue :: f64
  f_Gross_Profit :: f64
  f_EBIT :: f64

definition group_sum_f64 :: "string \<Rightarrow> f_row list \<Rightarrow> f64" where
  "group_sum_f64 g df = nansum_f64 (map f_amount (filter (\<lambda>r. f_group r = Some g) df))"

definition kpis_f64 :: "f_row list \<Rightarrow> f_kpi" where
  "kpis_f64 df =
     (let rev = group_sum_f64 ''Revenue'' df;
          cogs = group_sum_f64 ''COGS'' df;
          opex = group_sum_f64 ''OPEX'' df;
          gross_profit = f64_add rev cogs;
          ebit = f64_add gross_profit opex
      in \<lparr> f_Revenue = rev, f_Gross_Profit = gross_profit, f_EBIT = ebit \<rparr>)"

record f_pnl_row =
  fp_year :: int
  fp_month :: int
  fp_Revenue :: f64
  fp_COGS :: f64
  fp_OPEX :: f64
  fp_Gross_Profit :: f64
  fp_EBIT :: f64

definition f_key3 :: "f_row \<Rightarrow> (int \<times> int \<times> string) option" where
  "f_key3 r =
     (case (f_year r, f_month r, f_group r) of
        (Some y, Some m, Some g) \<Rightarrow> Some (y, m, g)
      | _ \<Rightarrow> None)"

definition mean_f64 :: "f64 list \<Rightarrow> f64" where
  "mean_f64 vs = f64_div (kahan_sum vs) (f64_of_nat (length vs))"

definition pivot_cell_f64 ::
  "((int \<times> int \<times> string) \<times> f64) list \<Rightarrow> int \<times> int \<Rightarrow> string \<Rightarrow> f64" where
  "pivot_cell_f64 g ym a =
     (let vs = map snd (filter (\<lambda>kv. fst kv = (fst ym, snd ym, a)) g)
      in if vs = [] then f64_zero else mean_f64 vs)"

definition pivot_index_f64 :: "((int \<times> int \<times> string) \<times> f64) list \<Rightarrow> (int \<times> int) list" where
  "pivot_index_f64 g = sort (remdups (map (\<lambda>kv. (fst (fst kv), fst (snd (fst kv)))) g))"

definition monthly_pnl_f64 :: "f_row list \<Rightarrow> f_pnl_row list" where
  "monthly_pnl_f64 df =
     (let g = groupby_sum_f64 f_key3 f_amount df in
      map (\<lambda>ym.
             (let rev = pivot_cell_f64 g ym ''Revenue'';
                  cogs = pivot_cell_f64 g ym ''COGS'';
                  opex = pivot_cell_f64 g ym ''OPEX'';
                  gross_profit = f64_add rev cogs;
                  ebit = f64_add gross_profit opex
              in \<lparr> fp_year = fst ym, fp_month = snd ym, fp_Revenue = rev, fp_COGS = cogs,
                   fp_OPEX = opex, fp_Gross_Profit = gross_profit, fp_EBIT = ebit \<rparr>))
          (pivot_index_f64 g))"

text \<open>
  The float64 numbers 0.1, 0.2 and 0.4 (the numbers nearest to one, two and four tenths),
  and a slice of three Revenue rows of 2024: 0.1 in January, 0.2 in February, 0.4 in
  January.
\<close>

definition tenth :: f64 where
  "tenth = \<lparr>mant = 7205759403792794, expo = - 56\<rparr>"

definition two_tenths :: f64 where
  "two_tenths = \<lparr>mant = 7205759403792794, expo = - 55\<rparr>"

definition four_tenths :: f64 where
  "four_tenths = \<lparr>mant = 7205759403792794, expo = - 54\<rparr>"

definition tenths_rows :: "f_row list" where
  "tenths_rows =
     [\<lparr> f_year = Some 2024, f_month = Some 1, f_group = Some ''Revenue'', f_amount = Some tenth \<rparr>,
      \<lparr> f_year = Some 2024, f_month = Some 2, f_group = Some ''Revenue'', f_amount = Some two_tenths \<rparr>,
      \<lparr> f_year = Some 2024, f_month = Some 1, f_group = Some ''Revenue'', f_amount = Some four_tenths \<rparr>]"

section \<open>Ratios of the Overview and Revenue pages (app.py)\<close>

text \<open>
  The ratios are computed on float64 numbers. \<open>if x\<close> holds of a number other than zero.
  A division by zero does not give a finite number (Python raises ZeroDivisionError, numpy
  gives an infinity or NaN): it is \<open>None\<close>.
\<close>

definition is_zero :: "f64 \<Rightarrow> bool" where
  "is_zero x = (mant x = 0)"

definition f64_mul :: "f64 \<Rightarrow> f64 \<Rightarrow> f64" where
  "f64_mul a b = f64_round (mant a * mant b) (expo a + expo b)"

definition f64_abs :: "f64 \<Rightarrow> f64" where
  "f64_abs a = a\<lparr>mant := \<bar>mant a\<bar>\<rparr>"

definition truediv :: "f64 \<Rightarrow> f64 \<Rightarrow> f64 option" where
  "truediv a b = (if is_zero b then None else Some (f64_div a b))"

text \<open>
  A row of the budget table as the pages read it: the year, the month (\<open>None\<close> in a table
  without months), the account group and the budget, a float64 number.
\<close>

record f_bd_row =
  fb_year :: int
  fb_month :: "int option"
  fb_group :: string
  fb_amount :: f64

text \<open>Overview page: the budget of the COGS group, and the whole budget.\<close>

definition total_budget_cogs :: "f_bd_row list \<Rightarrow> f64" where
  "total_budget_cogs bd =
     (if bd \<noteq> [] then nansum_f64 (map (\<lambda>b. Some (fb_amount b)) (filter (\<lambda>b. fb_group b = ''COGS'') bd))
      else f64_zero)"

definition total_budget :: "f_bd_row list \<Rightarrow> f64" where
  "total_budget bd = nansum_f64 (map (\<lambda>b. Some (fb_amount b)) bd)"

definition budget_util_pct :: "f_row list \<Rightarrow> f_bd_row list \<Rightarrow> f64 option" where
  "budget_util_pct DF bd =
     (let actual_cogs_spend = f64_abs (group_sum_f64 ''COGS'' DF)
      in if \<not> is_zero (total_budget_cogs bd)
         then map_option (\<lambda>q. f64_mul q (f64_of_nat 100)) (truediv actual_cogs_spend (total_budget_cogs bd))
         else Some f64_zero)"






text \<open>
  Revenue page. \<open>year_rev\<close> is \<open>None\<close> for the choice "All"; \<open>month_sel\<close> is the list of the
  months chosen, and an empty list does not filter.
\<close>

definition rev_slice :: "f_row list \<Rightarrow> int option \<Rightarrow> int list \<Rightarrow> f_row list" where
  "rev_slice DF year_rev month_sel =
     (let rev_all = filter (\<lambda>r. f_group r = Some ''Revenue'') DF;
          R = (case year_rev of None \<Rightarrow> rev_all | Some y \<Rightarrow> filter (\<lambda>r. f_year r = Some y) rev_all)
      in if month_sel \<noteq> [] then filter (\<lambda>r. f_month r \<in> Some ` set month_sel) R else R)"


definition prev_sum :: "f_row list \<Rightarrow> int \<Rightarrow> int list \<Rightarrow> f64" where
  "prev_sum DF y month_sel = nansum_f64 (map f_amount (rev_slice DF (Some (y - 1)) month_sel))"


definition budget_val :: "f_bd_row list \<Rightarrow> int option \<Rightarrow> int list \<Rightarrow> f64" where
  "budget_val bd year_rev month_sel =
     (if bd \<noteq> [] then
        (let has_month = (\<exists>b\<in>set bd. fb_month b \<noteq> None);
             b_rev0 = filter (\<lambda>b. fb_group b = ''Revenue'') bd;
             b_rev = (case year_rev of None \<Rightarrow> b_rev0 | Some y \<Rightarrow> filter (\<lambda>b. fb_year b = y) b_rev0)
         in if has_month
            then nansum_f64 (map (\<lambda>b. Some (fb_amount b))
                   (if month_sel \<noteq> [] then filter (\<lambda>b. fb_month b \<in> Some ` set month_sel) b_rev
                    else b_rev))
            else
              (let months_in_slice = (if month_sel \<noteq> [] then length month_sel else 12);
                   ann = groupby_sum_f64 (\<lambda>b. Some (fb_year b)) (\<lambda>b. Some (fb_amount b)) b_rev
               in f64_mul (f64_div (nansum_f64 (map (\<lambda>kv. Some (snd kv)) ann)) (f64_of_nat 12))
                    (f64_of_nat months_in_slice)))
      else f64_zero)"



text \<open>
  A slice with one COGS row of -400 in January 2024 and a budget table whose only row is a
  COGS budget of 0 for 2024: no revenue, no budget, no year before.
\<close>

definition cogs_only :: "f_row list" where
  "cogs_only =
     [\<lparr> f_year = Some 2024, f_month = Some 1, f_group = Some ''COGS'',
        f_amount = Some \<lparr>mant = - 7036874417766400, expo = - 44\<rparr> \<rparr>]"

definition zero_budget :: "f_bd_row list" where
  "zero_budget = [\<lparr> fb_year = 2024, fb_month = None, fb_group = ''COGS'', fb_amount = f64_zero \<rparr>]"

definition cogs_budget_800 :: "f_bd_row list" where
  "cogs_budget_800 =
     [\<lparr> fb_year = 2024, fb_month = None, fb_group = ''COGS'',
        fb_amount = \<lparr>mant = 7036874417766400, expo = - 43\<rparr> \<rparr>]"

section \<open>Properties of the classifier\<close>

lemma upper_strip_blank_COS: "upper (strip '' COS'') = ''COS''"
  by (simp add: upper_def strip_def is_space_def upper_char_def)

text \<open>
  Claim C1, as stated, fails: the classifier trims the short class and the class text as well
  as the side, so a short class written with a leading blank is still recognised, where the
  stated rule (which uppercases the short class without trimming it) yields no group.
\<close>

theorem infer_group_untrimmed_counterexample:
  "infer_group ''expenses'' '' COS'' '''' = Some ''COGS''
   \<and> classify_spec ''expenses'' '' COS'' '''' = None"
  by (simp add: infer_group_def classify_spec_def upper_def lower_def strip_def is_space_def
      upper_char_def lower_char_def startswith_def)

text \<open>
  Claim C1, amended: the classifier is the stated rule applied to the trimmed short class and
  the trimmed class text. The short-class checks come before the class-text checks, and
  the group is a function of the three inputs alone.
\<close>

theorem infer_group_is_classify_trimmed:
  "infer_group side short_class class_text
     = classify_spec side (strip short_class) (strip class_text)"
  by (simp add: infer_group_def classify_spec_def)

section \<open>Properties of the loader and of the KPIs\<close>

lemmas str_defs = upper_def lower_def strip_def is_space_def upper_char_def lower_char_def

lemma infer_examples:
  "infer_group ''revenue'' '''' '''' = Some ''Revenue''"
  "infer_group ''expenses'' ''COS'' '''' = Some ''COGS''"
  "infer_group ''expenses'' ''G&A'' '''' = Some ''OPEX''"
  by (simp_all add: infer_group_def str_defs)

lemma norm_cols_examples:
  "norm_cols [''Date'', ''AMOUNT'', ''REVENUE/EXPENSES'', ''Short_CLASS'']
     = [''Date'', ''AMOUNT'', ''REVENUE/EXPENSES'', ''Short_CLASS'']"
  "norm_cols [''Date'', ''AMOUNT'', ''REVENUE/EXPENSES'']
     = [''Date'', ''AMOUNT'', ''REVENUE/EXPENSES'']"
  by (simp_all add: norm_cols_def strip_def is_space_def)

lemmas load_defs = load_tx_def derive_row_def sign_row_def sign_amt_def py_abs_def
  dropna_signed_def dt_year_def dt_month_def jan24_def

lemma scenario_load: "load_tx scenario_raw = Inr scenario_tx"
  by (simp add: load_defs scenario_raw_def scenario_tx_def norm_cols_examples infer_examples)

lemma zero_load: "load_tx zero_raw = Inr [zero_tx]"
  by (simp add: load_defs zero_raw_def zero_tx_def norm_cols_examples infer_examples)

lemma apply_rows_Inr:
  "apply_rows f xs = Inr ys \<Longrightarrow> list_all2 (\<lambda>x y. f x = Inr y) xs ys"
  by (induction xs arbitrary: ys) (auto split: sum.splits)

lemma apply_rows_member:
  "apply_rows f xs = Inr ys \<Longrightarrow> y \<in> set ys \<Longrightarrow> \<exists>x\<in>set xs. f x = Inr y"
  by (induction xs arbitrary: ys) (auto split: sum.splits)

lemma sign_amt_Some:
  "sign_amt g c = Inr (Some s) \<Longrightarrow>
     g \<in> set [Some ''Revenue'', Some ''COGS'', Some ''OPEX'']
     \<and> (\<exists>a. c = Num a \<and> s = (if g = Some ''Revenue'' then \<bar>a\<bar> else - \<bar>a\<bar>))"
  by (auto simp: sign_amt_def py_abs_def split: if_splits cell.splits sum.splits)

lemma sign_row_Inr:
  "sign_row d = Inr r \<Longrightarrow> \<exists>s. sign_amt (account_group d) (AMOUNT d) = Inr s \<and> r = d\<lparr>signed_amount := s\<rparr>"
  by (auto simp: sign_row_def split: sum.splits)

lemma load_tx_row_origin:
  assumes "load_tx raw = Inr tx" and "r \<in> set tx"
  shows "\<exists>d s. d \<in> set (map (derive_row (norm_cols (tx_columns raw))) (tx_rows raw))
           \<and> sign_amt (account_group d) (AMOUNT d) = Inr (Some s) \<and> r = d\<lparr>signed_amount := Some s\<rparr>"
proof -
  let ?ds = "map (derive_row (norm_cols (tx_columns raw))) (tx_rows raw)"
  from assms(1) obtain rs where rs: "apply_rows sign_row ?ds = Inr rs" and tx: "tx = dropna_signed rs"
    by (auto simp: load_tx_def Let_def split: if_splits sum.splits)
  from assms(2) tx have r: "r \<in> set rs" "signed_amount r \<noteq> None"
    by (auto simp: dropna_signed_def)
  from apply_rows_member[OF rs r(1)] obtain d where d: "d \<in> set ?ds" "sign_row d = Inr r"
    by blast
  from sign_row_Inr[OF d(2)] obtain s where
    s: "sign_amt (account_group d) (AMOUNT d) = Inr s" "r = d\<lparr>signed_amount := s\<rparr>"
    by blast
  from s(2) r(2) obtain v where "s = Some v" by (cases s) auto
  with s d(1) show ?thesis by blast
qed

text \<open>
  Claim C2, amended: every row of the canonical transaction table has an account group among
  Revenue, COGS and OPEX, a numeric AMOUNT \<open>a\<close> and the signed amount \<open>\<bar>a\<bar>\<close> for Revenue,
  \<open>- \<bar>a\<bar>\<close> for COGS and OPEX, so its magnitude is that of AMOUNT and, when AMOUNT is not
  zero, its sign is +1 for Revenue and -1 for COGS and OPEX. A row without an account group
  gets no signed amount and is not in the table.
\<close>

theorem load_tx_rows_signed:
  assumes "load_tx raw = Inr tx"
  shows "(\<forall>r\<in>set tx.
            account_group r \<in> set [Some ''Revenue'', Some ''COGS'', Some ''OPEX'']
            \<and> (\<exists>a s. AMOUNT r = Num a \<and> signed_amount r = Some s \<and> \<bar>s\<bar> = \<bar>a\<bar>
                  \<and> s = (if account_group r = Some ''Revenue'' then \<bar>a\<bar> else - \<bar>a\<bar>)
                  \<and> (a \<noteq> 0 \<longrightarrow> sign_matches_group r)))
         \<and> (\<forall>c. sign_amt None c = Inr None)
         \<and> (\<forall>x\<in>set (tx_rows raw). \<forall>s.
               account_group (derive_row (norm_cols (tx_columns raw)) x) = None
               \<longrightarrow> (derive_row (norm_cols (tx_columns raw)) x)\<lparr>signed_amount := s\<rparr> \<notin> set tx)"
proof (intro conjI ballI allI impI)
  fix r assume "r \<in> set tx"
  from load_tx_row_origin[OF assms this] obtain d s where
    d: "sign_amt (account_group d) (AMOUNT d) = Inr (Some s)" "r = d\<lparr>signed_amount := Some s\<rparr>"
    by blast
  from sign_amt_Some[OF d(1)] d(2)
  show "account_group r \<in> set [Some ''Revenue'', Some ''COGS'', Some ''OPEX'']" by simp
  from sign_amt_Some[OF d(1)] d(2)
  show "\<exists>a s. AMOUNT r = Num a \<and> signed_amount r = Some s \<and> \<bar>s\<bar> = \<bar>a\<bar>
                  \<and> s = (if account_group r = Some ''Revenue'' then \<bar>a\<bar> else - \<bar>a\<bar>)
                  \<and> (a \<noteq> 0 \<longrightarrow> sign_matches_group r)"
    by (auto simp: sign_matches_group_def sgn_if)
next
  fix c show "sign_amt None c = Inr None" by (simp add: sign_amt_def)
next
  fix x s
  assume x: "x \<in> set (tx_rows raw)"
    and n: "account_group (derive_row (norm_cols (tx_columns raw)) x) = None"
  show "(derive_row (norm_cols (tx_columns raw)) x)\<lparr>signed_amount := s\<rparr> \<notin> set tx"
  proof
    assume "(derive_row (norm_cols (tx_columns raw)) x)\<lparr>signed_amount := s\<rparr> \<in> set tx"
    from load_tx_row_origin[OF assms this] obtain d s' where
      d: "sign_amt (account_group d) (AMOUNT d) = Inr (Some s')"
         "(derive_row (norm_cols (tx_columns raw)) x)\<lparr>signed_amount := s\<rparr> = d\<lparr>signed_amount := Some s'\<rparr>"
      by blast
    from d(2) have "account_group d = account_group (derive_row (norm_cols (tx_columns raw)) x)"
      by (metis tx_row.select_convs(4) tx_row.surjective tx_row.update_convs(5))
    with n sign_amt_Some[OF d(1)] show False by simp
  qed
qed

theorem load_tx_rows_signed_witness:
  "load_tx scenario_raw = Inr scenario_tx
   \<and> map account_group scenario_tx = [Some ''Revenue'', Some ''COGS'', Some ''OPEX'']
   \<and> map AMOUNT scenario_tx = [Num 1000, Num 400, Num 200]
   \<and> map signed_amount scenario_tx = [Some 1000, Some (- 400), Some (- 200)]
   \<and> list_all sign_matches_group scenario_tx"
  using load_tx_rows_signed[OF scenario_load]
  by (simp add: scenario_load scenario_tx_def sign_matches_group_def)

text \<open>
  Claim C2, as stated, fails for an amount of zero: the revenue row is kept, its signed
  amount is 0 and the sign of 0 is not +1.
\<close>

theorem load_tx_zero_amount_counterexample:
  "load_tx zero_raw = Inr [zero_tx] \<and> account_group zero_tx = Some ''Revenue''
   \<and> signed_amount zero_tx = Some 0 \<and> \<not> sign_matches_group zero_tx"
  by (simp add: zero_load) (simp add: zero_tx_def sign_matches_group_def)

text \<open>
  Claim C3: for every table, \<open>kpis\<close> returns as Revenue the sum of the signed amounts of the
  Revenue rows, as Gross Profit that Revenue plus the sum over the COGS rows, and as EBIT
  that Gross Profit plus the sum over the OPEX rows; the three-row scenario of January 2024
  (revenue 1000, COS 400, G&A 200), loaded by \<open>load_tx\<close>, gives 1000, 600 and 400.
\<close>

theorem kpis_sums:
  "Revenue (kpis df)
     = (\<Sum>r\<leftarrow>filter (\<lambda>r. account_group r = Some ''Revenue'') df.
          case signed_amount r of Some v \<Rightarrow> v | None \<Rightarrow> 0)
   \<and> Gross_Profit (kpis df)
     = Revenue (kpis df)
       + (\<Sum>r\<leftarrow>filter (\<lambda>r. account_group r = Some ''COGS'') df.
            case signed_amount r of Some v \<Rightarrow> v | None \<Rightarrow> 0)
   \<and> EBIT (kpis df)
     = Gross_Profit (kpis df)
       + (\<Sum>r\<leftarrow>filter (\<lambda>r. account_group r = Some ''OPEX'') df.
            case signed_amount r of Some v \<Rightarrow> v | None \<Rightarrow> 0)
   \<and> load_tx scenario_raw = Inr scenario_tx
   \<and> kpis scenario_tx = \<lparr>Revenue = 1000, Gross_Profit = 600, EBIT = 400\<rparr>"
  by (simp add: kpis_def group_sum_def nansum_def Let_def comp_def scenario_load)
     (simp add: scenario_tx_def)

theorem kpis_sums_witness:
  "Revenue (kpis scenario_tx) = 1000 \<and> Gross_Profit (kpis scenario_tx) = 600
   \<and> EBIT (kpis scenario_tx) = 400"
  using kpis_sums[of scenario_tx] by simp

section \<open>Properties of the period slices\<close>

lemma quarters_load: "load_tx quarters_raw = Inr quarters_tx"
  by (simp add: load_defs quarters_raw_def quarters_tx_def rev_row_def norm_cols_examples infer_examples)

lemma month_number_range: "1 \<le> month_number m \<and> month_number m \<le> 12"
  by (cases m) simp_all

lemma load_tx_period:
  assumes "load_tx raw = Inr tx" and "r \<in> set tx"
  shows "year r = dt_year (date r) \<and> month r = dt_month (date r)"
proof -
  from load_tx_row_origin[OF assms] obtain d s where
    "d \<in> set (map (derive_row (norm_cols (tx_columns raw))) (tx_rows raw))"
    "r = d\<lparr>signed_amount := Some s\<rparr>" by blast
  then show ?thesis by (auto simp: derive_row_def Let_def)
qed

lemma load_tx_month_of_year:
  assumes "load_tx raw = Inr tx" and "r \<in> set tx" and "year r = Some y"
  shows "\<exists>k. month r = Some k \<and> 1 \<le> k \<and> k \<le> 12"
  using load_tx_period[OF assms(1,2)] assms(3) month_number_range
  by (cases "date r") (auto simp: dt_year_def dt_month_def)

lemma mset_filter_partition4:
  assumes "\<And>x. x \<in> set xs \<Longrightarrow> (P1 x \<or> P2 x \<or> P3 x \<or> P4 x)"
    and "\<And>x. x \<in> set xs \<Longrightarrow> \<not> (P1 x \<and> P2 x) \<and> \<not> (P1 x \<and> P3 x) \<and> \<not> (P1 x \<and> P4 x)
            \<and> \<not> (P2 x \<and> P3 x) \<and> \<not> (P2 x \<and> P4 x) \<and> \<not> (P3 x \<and> P4 x)"
  shows "mset (filter P1 xs) + mset (filter P2 xs) + mset (filter P3 xs) + mset (filter P4 xs)
           = mset xs"
proof (rule multiset_eqI)
  fix a
  show "count (mset (filter P1 xs) + mset (filter P2 xs) + mset (filter P3 xs)
                 + mset (filter P4 xs)) a = count (mset xs) a"
  proof (cases "a \<in> set xs")
    case True
    from assms(1)[OF True] assms(2)[OF True] show ?thesis
      by (auto simp: mset_filter)
  next
    case False
    then have "count (mset xs) a = 0" by (simp add: count_eq_zero_iff)
    then show ?thesis by (simp add: mset_filter)
  qed
qed

lemma qmap_simps:
  "qmap ''Q1'' = Some [1, 2, 3]" "qmap ''Q2'' = Some [4, 5, 6]"
  "qmap ''Q3'' = Some [7, 8, 9]" "qmap ''Q4'' = Some [10, 11, 12]"
  by (simp_all add: qmap_def)

lemma slice_quarter:
  "slice_period df y ''Quarter'' (Some ''Q1'') None
     = Inr (filter (month_isin [1, 2, 3]) (filter (\<lambda>r. year r = Some y) df))"
  "slice_period df y ''Quarter'' (Some ''Q2'') None
     = Inr (filter (month_isin [4, 5, 6]) (filter (\<lambda>r. year r = Some y) df))"
  "slice_period df y ''Quarter'' (Some ''Q3'') None
     = Inr (filter (month_isin [7, 8, 9]) (filter (\<lambda>r. year r = Some y) df))"
  "slice_period df y ''Quarter'' (Some ''Q4'') None
     = Inr (filter (month_isin [10, 11, 12]) (filter (\<lambda>r. year r = Some y) df))"
  by (simp_all add: slice_period_def qmap_simps)

lemma slice_year:
  "slice_period df y ''Year'' None None = Inr (filter (\<lambda>r. year r = Some y) df)"
  by (simp add: slice_period_def)

lemmas quarters_eval = quarters_tx_def rev_row_def month_isin_def

lemma month_isin_image: "month_isin ms r \<longleftrightarrow> month r \<in> Some ` set ms"
  by (cases "month r") (auto simp: month_isin_def)

lemma slice_year_rows: "slice_period t y ''Year'' None None = Inr (year_rows y t)"
  by (simp add: slice_period_def year_rows_def)

lemma slice_quarter_rows:
  "slice_period t y ''Quarter'' (Some ''Q1'') None = Inr (quarter_rows y [1, 2, 3] t)"
  "slice_period t y ''Quarter'' (Some ''Q2'') None = Inr (quarter_rows y [4, 5, 6] t)"
  "slice_period t y ''Quarter'' (Some ''Q3'') None = Inr (quarter_rows y [7, 8, 9] t)"
  "slice_period t y ''Quarter'' (Some ''Q4'') None = Inr (quarter_rows y [10, 11, 12] t)"
  by (simp_all add: slice_period_def qmap_simps quarter_rows_def month_isin_image conj_commute)

lemma quarter_rows_filter:
  "quarter_rows y ms t = filter (\<lambda>r. month r \<in> Some ` set ms) (year_rows y t)"
  by (simp add: quarter_rows_def year_rows_def conj_commute)

lemma quarter_rows_disjoint:
  assumes "set a \<inter> set b = {}"
  shows "set (quarter_rows y a t) \<inter> set (quarter_rows y b t) = {}"
  using assms by (auto simp: quarter_rows_def)

lemma month_in_quarters:
  "(month r \<in> Some ` set [1, 2, 3] \<or> month r \<in> Some ` set [4, 5, 6]
    \<or> month r \<in> Some ` set [7, 8, 9] \<or> month r \<in> Some ` set [10, 11, 12])
   \<longleftrightarrow> (\<exists>k. month r = Some k \<and> 1 \<le> k \<and> k \<le> 12)"
proof
  assume "month r \<in> Some ` set [1, 2, 3] \<or> month r \<in> Some ` set [4, 5, 6]
    \<or> month r \<in> Some ` set [7, 8, 9] \<or> month r \<in> Some ` set [10, 11, 12]"
  then show "\<exists>k. month r = Some k \<and> 1 \<le> k \<and> k \<le> 12" by auto
next
  assume "\<exists>k. month r = Some k \<and> 1 \<le> k \<and> k \<le> 12"
  then obtain k where k: "month r = Some k" "1 \<le> k" "k \<le> 12" by blast
  from k(2,3) have "k \<in> {1, 2, 3, 4, 5, 6, 7, 8, 9, 10, 11, 12}" by simp presburger
  with k(1) show "month r \<in> Some ` set [1, 2, 3] \<or> month r \<in> Some ` set [4, 5, 6]
    \<or> month r \<in> Some ` set [7, 8, 9] \<or> month r \<in> Some ` set [10, 11, 12]" by auto
qed

lemma quarters_exclusive:
  "\<not> (month r \<in> Some ` set [1, 2, 3] \<and> month r \<in> Some ` set [4, 5, 6])
   \<and> \<not> (month r \<in> Some ` set [1, 2, 3] \<and> month r \<in> Some ` set [7, 8, 9])
   \<and> \<not> (month r \<in> Some ` set [1, 2, 3] \<and> month r \<in> Some ` set [10, 11, 12])
   \<and> \<not> (month r \<in> Some ` set [4, 5, 6] \<and> month r \<in> Some ` set [7, 8, 9])
   \<and> \<not> (month r \<in> Some ` set [4, 5, 6] \<and> month r \<in> Some ` set [10, 11, 12])
   \<and> \<not> (month r \<in> Some ` set [7, 8, 9] \<and> month r \<in> Some ` set [10, 11, 12])"
  by auto

lemma quarters_cover_iff:
  "mset (quarter_rows y [1, 2, 3] t) + mset (quarter_rows y [4, 5, 6] t)
     + mset (quarter_rows y [7, 8, 9] t) + mset (quarter_rows y [10, 11, 12] t)
     = mset (year_rows y t)
   \<longleftrightarrow> (\<forall>r\<in>set (year_rows y t). \<exists>k. month r = Some k \<and> 1 \<le> k \<and> k \<le> 12)"
  (is "?L \<longleftrightarrow> ?R")
proof
  assume l: ?L
  show ?R
  proof
    fix r assume r: "r \<in> set (year_rows y t)"
    then have "r \<in># mset (year_rows y t)" by simp
    with l have "r \<in># mset (quarter_rows y [1, 2, 3] t) + mset (quarter_rows y [4, 5, 6] t)
     + mset (quarter_rows y [7, 8, 9] t) + mset (quarter_rows y [10, 11, 12] t)" by simp
    then have "month r \<in> Some ` set [1, 2, 3] \<or> month r \<in> Some ` set [4, 5, 6]
      \<or> month r \<in> Some ` set [7, 8, 9] \<or> month r \<in> Some ` set [10, 11, 12]"
      unfolding quarter_rows_filter by auto
    then show "\<exists>k. month r = Some k \<and> 1 \<le> k \<and> k \<le> 12"
      by (simp only: month_in_quarters)
  qed
next
  assume r: ?R
  show ?L
    unfolding quarter_rows_filter
  proof (rule mset_filter_partition4)
    fix x assume "x \<in> set (year_rows y t)"
    with r have "\<exists>k. month x = Some k \<and> 1 \<le> k \<and> k \<le> 12" by blast
    then show "month x \<in> Some ` set [1, 2, 3] \<or> month x \<in> Some ` set [4, 5, 6]
      \<or> month x \<in> Some ` set [7, 8, 9] \<or> month x \<in> Some ` set [10, 11, 12]"
      by (simp only: month_in_quarters)
  next
    fix x assume "x \<in> set (year_rows y t)"
    show "\<not> (month x \<in> Some ` set [1, 2, 3] \<and> month x \<in> Some ` set [4, 5, 6])
   \<and> \<not> (month x \<in> Some ` set [1, 2, 3] \<and> month x \<in> Some ` set [7, 8, 9])
   \<and> \<not> (month x \<in> Some ` set [1, 2, 3] \<and> month x \<in> Some ` set [10, 11, 12])
   \<and> \<not> (month x \<in> Some ` set [4, 5, 6] \<and> month x \<in> Some ` set [7, 8, 9])
   \<and> \<not> (month x \<in> Some ` set [4, 5, 6] \<and> month x \<in> Some ` set [10, 11, 12])
   \<and> \<not> (month x \<in> Some ` set [7, 8, 9] \<and> month x \<in> Some ` set [10, 11, 12])"
      by (rule quarters_exclusive)
  qed
qed

lemma canonical_year_rows_months:
  assumes "load_tx raw = Inr tx" and "set t \<subseteq> set tx"
  shows "\<forall>r\<in>set (year_rows y t). \<exists>k. month r = Some k \<and> 1 \<le> k \<and> k \<le> 12"
proof
  fix r assume "r \<in> set (year_rows y t)"
  then have "r \<in> set tx" "year r = Some y" using assms(2) by (auto simp: year_rows_def)
  then show "\<exists>k. month r = Some k \<and> 1 \<le> k \<and> k \<le> 12"
    by (rule load_tx_month_of_year[OF assms(1)])
qed

text \<open>
  Claim C8 against the code: a table with a row of 2024 whose month is blank and a row of
  2024 whose month is 13. Both rows are in the year slice of 2024 and in none of the four
  quarter slices, so the quarter slices lose them.
\<close>

theorem slice_period_quarters_lose_rows_counterexample:
  "slice_period uploaded_rows 2024 ''Year'' None None = Inr [blank_month_row, month13_row]
   \<and> slice_period uploaded_rows 2024 ''Quarter'' (Some ''Q1'') None = Inr []
   \<and> slice_period uploaded_rows 2024 ''Quarter'' (Some ''Q2'') None = Inr []
   \<and> slice_period uploaded_rows 2024 ''Quarter'' (Some ''Q3'') None = Inr []
   \<and> slice_period uploaded_rows 2024 ''Quarter'' (Some ''Q4'') None = Inr []"
  by (simp add: slice_period_def qmap_simps uploaded_rows_def blank_month_row_def
      month13_row_def month_isin_def)

text \<open>
  Claim C8 as amended. For every table and every year the year slice holds the rows whose
  year is exactly that year, and the slice of quarter Q1, Q2, Q3, Q4 holds the rows of that
  year whose month is in 1-3, 4-6, 7-9, 10-12: the filters compose by intersection, and no
  slice fails. The four quarter slices are pairwise disjoint. Together they hold exactly the
  rows of the year slice, each as often as the year slice does, if and only if every row of
  the year slice has a month from 1 to 12; that is so for every table of rows of the
  canonical transaction table.
\<close>

theorem slice_period_quarters_partition_iff_months:
  "slice_period t y ''Year'' None None = Inr (year_rows y t)
   \<and> slice_period t y ''Quarter'' (Some ''Q1'') None = Inr (quarter_rows y [1, 2, 3] t)
   \<and> slice_period t y ''Quarter'' (Some ''Q2'') None = Inr (quarter_rows y [4, 5, 6] t)
   \<and> slice_period t y ''Quarter'' (Some ''Q3'') None = Inr (quarter_rows y [7, 8, 9] t)
   \<and> slice_period t y ''Quarter'' (Some ''Q4'') None = Inr (quarter_rows y [10, 11, 12] t)
   \<and> set (quarter_rows y [1, 2, 3] t) \<inter> set (quarter_rows y [4, 5, 6] t) = {}
   \<and> set (quarter_rows y [1, 2, 3] t) \<inter> set (quarter_rows y [7, 8, 9] t) = {}
   \<and> set (quarter_rows y [1, 2, 3] t) \<inter> set (quarter_rows y [10, 11, 12] t) = {}
   \<and> set (quarter_rows y [4, 5, 6] t) \<inter> set (quarter_rows y [7, 8, 9] t) = {}
   \<and> set (quarter_rows y [4, 5, 6] t) \<inter> set (quarter_rows y [10, 11, 12] t) = {}
   \<and> set (quarter_rows y [7, 8, 9] t) \<inter> set (quarter_rows y [10, 11, 12] t) = {}
   \<and> (mset (quarter_rows y [1, 2, 3] t) + mset (quarter_rows y [4, 5, 6] t)
        + mset (quarter_rows y [7, 8, 9] t) + mset (quarter_rows y [10, 11, 12] t)
        = mset (year_rows y t)
      \<longleftrightarrow> (\<forall>r\<in>set t. year r = Some y \<longrightarrow> (\<exists>k. month r = Some k \<and> 1 \<le> k \<and> k \<le> 12)))
   \<and> (\<forall>raw tx. load_tx raw = Inr tx \<and> set t \<subseteq> set tx \<longrightarrow>
        mset (quarter_rows y [1, 2, 3] t) + mset (quarter_rows y [4, 5, 6] t)
        + mset (quarter_rows y [7, 8, 9] t) + mset (quarter_rows y [10, 11, 12] t)
        = mset (year_rows y t))"
proof -
  have d: "set (quarter_rows y a t) \<inter> set (quarter_rows y b t) = {}"
    if "set a \<inter> set b = {}" for a b
    using that by (rule quarter_rows_disjoint)
  have d12: "set (quarter_rows y [1, 2, 3] t) \<inter> set (quarter_rows y [4, 5, 6] t) = {}"
    by (rule d) simp
  have d13: "set (quarter_rows y [1, 2, 3] t) \<inter> set (quarter_rows y [7, 8, 9] t) = {}"
    by (rule d) simp
  have d14: "set (quarter_rows y [1, 2, 3] t) \<inter> set (quarter_rows y [10, 11, 12] t) = {}"
    by (rule d) simp
  have d23: "set (quarter_rows y [4, 5, 6] t) \<inter> set (quarter_rows y [7, 8, 9] t) = {}"
    by (rule d) simp
  have d24: "set (quarter_rows y [4, 5, 6] t) \<inter> set (quarter_rows y [10, 11, 12] t) = {}"
    by (rule d) simp
  have d34: "set (quarter_rows y [7, 8, 9] t) \<inter> set (quarter_rows y [10, 11, 12] t) = {}"
    by (rule d) simp
  have e: "(\<forall>r\<in>set (year_rows y t). \<exists>k. month r = Some k \<and> 1 \<le> k \<and> k \<le> 12)
           \<longleftrightarrow> (\<forall>r\<in>set t. year r = Some y \<longrightarrow> (\<exists>k. month r = Some k \<and> 1 \<le> k \<and> k \<le> 12))"
    by (auto simp: year_rows_def)
  have c: "\<forall>raw tx. load_tx raw = Inr tx \<and> set t \<subseteq> set tx \<longrightarrow>
        mset (quarter_rows y [1, 2, 3] t) + mset (quarter_rows y [4, 5, 6] t)
        + mset (quarter_rows y [7, 8, 9] t) + mset (quarter_rows y [10, 11, 12] t)
        = mset (year_rows y t)"
    using canonical_year_rows_months quarters_cover_iff by blast
  note i = quarters_cover_iff[of y t, unfolded e]
  from slice_year_rows slice_quarter_rows d12 d13 d14 d23 d24 d34 i c show ?thesis
    by (intro conjI)
qed

theorem slice_period_quarters_partition_iff_months_witness:
  "load_tx quarters_raw = Inr quarters_tx
   \<and> slice_period quarters_tx 2024 ''Quarter'' (Some ''Q1'') None = Inr [quarters_tx ! 0]
   \<and> slice_period quarters_tx 2024 ''Quarter'' (Some ''Q2'') None = Inr [quarters_tx ! 4]
   \<and> slice_period quarters_tx 2024 ''Quarter'' (Some ''Q3'') None = Inr []
   \<and> slice_period quarters_tx 2024 ''Quarter'' (Some ''Q4'') None = Inr [quarters_tx ! 1]
   \<and> slice_period quarters_tx 2024 ''Year'' None None
       = Inr [quarters_tx ! 0, quarters_tx ! 1, quarters_tx ! 4]
   \<and> mset (quarter_rows 2024 [1, 2, 3] quarters_tx) + mset (quarter_rows 2024 [4, 5, 6] quarters_tx)
       + mset (quarter_rows 2024 [7, 8, 9] quarters_tx) + mset (quarter_rows 2024 [10, 11, 12] quarters_tx)
       = mset (year_rows 2024 quarters_tx)"
proof -
  have p: "mset (quarter_rows 2024 [1, 2, 3] quarters_tx) + mset (quarter_rows 2024 [4, 5, 6] quarters_tx)
       + mset (quarter_rows 2024 [7, 8, 9] quarters_tx) + mset (quarter_rows 2024 [10, 11, 12] quarters_tx)
       = mset (year_rows 2024 quarters_tx)"
    using slice_period_quarters_partition_iff_months[of quarters_tx 2024] quarters_load by blast
  have s: "slice_period quarters_tx 2024 ''Quarter'' (Some ''Q1'') None = Inr [quarters_tx ! 0]"
    "slice_period quarters_tx 2024 ''Quarter'' (Some ''Q2'') None = Inr [quarters_tx ! 4]"
    "slice_period quarters_tx 2024 ''Quarter'' (Some ''Q3'') None = Inr []"
    "slice_period quarters_tx 2024 ''Quarter'' (Some ''Q4'') None = Inr [quarters_tx ! 1]"
    "slice_period quarters_tx 2024 ''Year'' None None
       = Inr [quarters_tx ! 0, quarters_tx ! 1, quarters_tx ! 4]"
    by (simp_all add: slice_quarter slice_year) (simp_all add: quarters_eval)
  from quarters_load s p show ?thesis by simp
qed

section \<open>Properties of the monthly profit and loss\<close>

lemma map_filter_set: "set (List.map_filter f xs) = {k. \<exists>x\<in>set xs. f x = Some k}"
  by (auto simp: List.map_filter_def image_iff) force

lemma groupby_keys:
  "map fst (groupby_sum key val rs) = sort (remdups (List.map_filter key rs))"
  by (simp add: groupby_sum_def comp_def)

lemma groupby_keys_distinct: "distinct (map fst (groupby_sum key val rs))"
  by (simp add: groupby_keys)

lemma groupby_keys_set:
  "set (map fst (groupby_sum key val rs)) = {k. \<exists>r\<in>set rs. key r = Some k}"
  by (simp add: groupby_keys map_filter_set)

lemma filter_key_map:
  "distinct ks \<Longrightarrow>
   filter (\<lambda>kv. fst kv = k0) (map (\<lambda>k. (k, F k)) ks) = (if k0 \<in> set ks then [(k0, F k0)] else [])"
  by (induction ks) auto

lemma groupby_lookup:
  "map snd (filter (\<lambda>kv. fst kv = k0) (groupby_sum key val rs))
     = (if (\<exists>r\<in>set rs. key r = Some k0)
        then [nansum (map val (filter (\<lambda>r. key r = Some k0) rs))] else [])"
proof -
  let ?ks = "sort (remdups (List.map_filter key rs))"
  have d: "distinct ?ks" by simp
  have s: "k0 \<in> set ?ks \<longleftrightarrow> (\<exists>r\<in>set rs. key r = Some k0)"
    by (simp add: map_filter_set)
  show ?thesis
    unfolding groupby_sum_def filter_key_map[OF d] s by simp
qed

lemma key3_eq:
  "key3 r = Some (y, m, a) \<longleftrightarrow> year r = Some y \<and> month r = Some m \<and> account_group r = Some a"
  by (auto simp: key3_def split: option.splits)

lemma pivot_cell_sum:
  "pivot_cell (groupby_sum key3 signed_amount df) (y, m) a = month_group_sum df y m a"
proof (cases "\<exists>r\<in>set df. key3 r = Some (y, m, a)")
  case True
  then show ?thesis
    by (simp add: pivot_cell_def groupby_lookup mean_def month_group_sum_def key3_eq)
next
  case False
  then have "filter (\<lambda>r. key3 r = Some (y, m, a)) df = []"
    by (simp add: filter_empty_conv)
  then have "month_group_sum df y m a = 0"
    by (simp add: month_group_sum_def key3_eq nansum_def)
  with False show ?thesis
    by (simp add: pivot_cell_def groupby_lookup)
qed

lemma pivot_index_set:
  "set (pivot_index (groupby_sum key3 signed_amount df))
     = {(y, m). \<exists>r\<in>set df. \<exists>a. key3 r = Some (y, m, a)}"
proof -
  have "set (pivot_index (groupby_sum key3 signed_amount df))
          = (\<lambda>k. (fst k, fst (snd k))) ` set (map fst (groupby_sum key3 signed_amount df))"
    by (simp add: pivot_index_def image_image)
  also have "\<dots> = {(y, m). \<exists>r\<in>set df. \<exists>a. key3 r = Some (y, m, a)}"
    unfolding groupby_keys_set
  proof (intro set_eqI iffI)
    fix p assume "p \<in> (\<lambda>k. (fst k, fst (snd k))) ` {k. \<exists>r\<in>set df. key3 r = Some k}"
    then obtain k r where "p = (fst k, fst (snd k))" "r \<in> set df" "key3 r = Some k" by blast
    then show "p \<in> {(y, m). \<exists>r\<in>set df. \<exists>a. key3 r = Some (y, m, a)}"
      by (cases k) auto
  next
    fix p assume "p \<in> {(y, m). \<exists>r\<in>set df. \<exists>a. key3 r = Some (y, m, a)}"
    then obtain y m a r where "p = (y, m)" "r \<in> set df" "key3 r = Some (y, m, a)" by blast
    then show "p \<in> (\<lambda>k. (fst k, fst (snd k))) ` {k. \<exists>r\<in>set df. key3 r = Some k}"
      by (intro image_eqI[where x = "(y, m, a)"]) auto
  qed
  finally show ?thesis .
qed

lemma pivot_index_sorted: "sorted (pivot_index g) \<and> distinct (pivot_index g)"
  by (simp add: pivot_index_def)

lemma monthly_pnl_periods:
  "map period_of (monthly_pnl df) = pivot_index (groupby_sum key3 signed_amount df)"
  by (simp add: monthly_pnl_def Let_def comp_def period_of_def)

lemma monthly_pnl_row:
  assumes "p \<in> set (monthly_pnl df)"
  shows "p_Revenue p = month_group_sum df (p_year p) (p_month p) ''Revenue''
       \<and> p_COGS p = month_group_sum df (p_year p) (p_month p) ''COGS''
       \<and> p_OPEX p = month_group_sum df (p_year p) (p_month p) ''OPEX''
       \<and> p_Gross_Profit p = p_Revenue p + p_COGS p
       \<and> p_EBIT p = p_Gross_Profit p + p_OPEX p"
proof -
  from assms obtain ym where
    "p = (let rev = pivot_cell (groupby_sum key3 signed_amount df) ym ''Revenue'';
                  cogs = pivot_cell (groupby_sum key3 signed_amount df) ym ''COGS'';
                  opex = pivot_cell (groupby_sum key3 signed_amount df) ym ''OPEX'';
                  gross_profit = rev + cogs;
                  ebit = gross_profit + opex
              in \<lparr> p_year = fst ym, p_month = snd ym, p_Revenue = rev, p_COGS = cogs,
                   p_OPEX = opex, p_Gross_Profit = gross_profit, p_EBIT = ebit \<rparr>)"
    by (auto simp: monthly_pnl_def Let_def)
  then show ?thesis
    by (cases ym) (simp add: Let_def pivot_cell_sum)
qed

lemma sum_filter_disj:
  "(\<And>x. x \<in> set xs \<Longrightarrow> \<not> (P x \<and> Q x)) \<Longrightarrow>
   sum_list (map h (filter P xs)) + sum_list (map h (filter Q xs))
     = (sum_list (map h (filter (\<lambda>x. P x \<or> Q x) xs)) :: real)"
  by (induction xs) auto

lemma sum_over_keys:
  "distinct ks \<Longrightarrow>
   (\<Sum>k\<leftarrow>ks. sum_list (map h (filter (\<lambda>r. f r = Some k) rs)))
     = (sum_list (map h (filter (\<lambda>r. \<exists>k\<in>set ks. f r = Some k) rs)) :: real)"
proof (induction ks)
  case Nil
  then show ?case by simp
next
  case (Cons k ks)
  have "(\<Sum>k\<leftarrow>k # ks. sum_list (map h (filter (\<lambda>r. f r = Some k) rs)))
          = sum_list (map h (filter (\<lambda>r. f r = Some k) rs))
            + sum_list (map h (filter (\<lambda>r. \<exists>k\<in>set ks. f r = Some k) rs))"
    using Cons by simp
  also have "\<dots> = sum_list (map h (filter (\<lambda>r. f r = Some k \<or> (\<exists>k\<in>set ks. f r = Some k)) rs))"
    by (rule sum_filter_disj) (use Cons.prems in auto)
  also have "\<dots> = sum_list (map h (filter (\<lambda>r. \<exists>k'\<in>set (k # ks). f r = Some k') rs))"
    by (rule arg_cong[where f = "\<lambda>p. sum_list (map h (filter p rs))"]) auto
  finally show ?case .
qed

lemma nansum_signed: "nansum (map signed_amount rs) = sum_list (map amount_or_zero rs)"
  by (induction rs) (simp_all add: nansum_def amount_or_zero_def)

lemma month_group_sum_alt:
  "month_group_sum df Y m a
     = sum_list (map amount_or_zero
         (filter (\<lambda>r. (if year r = Some Y \<and> account_group r = Some a then month r else None)
                        = Some m) df))"
  unfolding month_group_sum_def nansum_signed
  by (rule arg_cong[where f = "\<lambda>xs. sum_list (map amount_or_zero xs)"], rule filter_cong[OF refl])
     auto

lemma year_sum_generic:
  assumes "\<And>r. r \<in> set df \<Longrightarrow> year r = Some Y \<Longrightarrow> month r \<noteq> None"
  shows "(\<Sum>ym\<leftarrow>filter (\<lambda>ym. fst ym = Y) (pivot_index (groupby_sum key3 signed_amount df)).
            month_group_sum df (fst ym) (snd ym) a)
         = group_sum a (filter (\<lambda>r. year r = Some Y) df)"
proof -
  let ?idx = "pivot_index (groupby_sum key3 signed_amount df)"
  let ?ks = "map snd (filter (\<lambda>ym. fst ym = Y) ?idx)"
  let ?f = "\<lambda>r. if year r = Some Y \<and> account_group r = Some a then month r else None"
  have dk: "distinct ?ks"
  proof -
    have "inj_on snd (set (filter (\<lambda>ym. fst ym = Y) ?idx))"
      by (auto simp: inj_on_def)
    moreover have "distinct (filter (\<lambda>ym. fst ym = Y) ?idx)"
      using pivot_index_sorted by simp
    ultimately show ?thesis by (simp add: distinct_map)
  qed
  have ks: "set ?ks = {m. \<exists>r\<in>set df. \<exists>b. key3 r = Some (Y, m, b)}"
  proof (intro set_eqI iffI)
    fix m assume "m \<in> set ?ks"
    then have "(Y, m) \<in> set ?idx" by auto
    then show "m \<in> {m. \<exists>r\<in>set df. \<exists>b. key3 r = Some (Y, m, b)}"
      unfolding pivot_index_set by simp
  next
    fix m assume "m \<in> {m. \<exists>r\<in>set df. \<exists>b. key3 r = Some (Y, m, b)}"
    then have "(Y, m) \<in> set ?idx" unfolding pivot_index_set by simp
    then have "(Y, m) \<in> set (filter (\<lambda>ym. fst ym = Y) ?idx)" by simp
    then show "m \<in> set ?ks" by force
  qed
  have "(\<Sum>ym\<leftarrow>filter (\<lambda>ym. fst ym = Y) ?idx. month_group_sum df (fst ym) (snd ym) a)
          = (\<Sum>ym\<leftarrow>filter (\<lambda>ym. fst ym = Y) ?idx. month_group_sum df Y (snd ym) a)"
    by (rule arg_cong[where f = sum_list], rule map_cong[OF refl]) simp
  also have "\<dots> = (\<Sum>m\<leftarrow>?ks. month_group_sum df Y m a)"
    by (simp add: comp_def)
  also have "\<dots> = (\<Sum>m\<leftarrow>?ks. sum_list (map amount_or_zero (filter (\<lambda>r. ?f r = Some m) df)))"
    by (simp add: month_group_sum_alt)
  also have "\<dots> = sum_list (map amount_or_zero (filter (\<lambda>r. \<exists>m\<in>set ?ks. ?f r = Some m) df))"
    by (rule sum_over_keys[OF dk])
  also have "\<dots> = sum_list (map amount_or_zero
                      (filter (\<lambda>r. year r = Some Y \<and> account_group r = Some a) df))"
  proof (rule arg_cong[where f = "\<lambda>xs. sum_list (map amount_or_zero xs)"], rule filter_cong[OF refl])
    fix r assume r: "r \<in> set df"
    show "(\<exists>m\<in>set ?ks. ?f r = Some m) \<longleftrightarrow> (year r = Some Y \<and> account_group r = Some a)"
    proof
      assume "\<exists>m\<in>set ?ks. ?f r = Some m"
      then show "year r = Some Y \<and> account_group r = Some a" by (auto split: if_splits)
    next
      assume h: "year r = Some Y \<and> account_group r = Some a"
      with assms[OF r] obtain m where m: "month r = Some m" by auto
      with h have "key3 r = Some (Y, m, a)" by (simp add: key3_eq)
      with r have "m \<in> set ?ks" unfolding ks by blast
      with h m show "\<exists>m\<in>set ?ks. ?f r = Some m" by auto
    qed
  qed
  also have "\<dots> = group_sum a (filter (\<lambda>r. year r = Some Y) df)"
    by (simp add: group_sum_def nansum_signed conj_commute)
  finally show ?thesis .
qed

lemma pivot_cell_sum_pair:
  "pivot_cell (groupby_sum key3 signed_amount df) ym a = month_group_sum df (fst ym) (snd ym) a"
  by (cases ym) (simp add: pivot_cell_sum)

lemma monthly_pnl_year_col:
  "sum_list (map p_Revenue (filter (\<lambda>p. p_year p = Y) (monthly_pnl df)))
     = (\<Sum>ym\<leftarrow>filter (\<lambda>ym. fst ym = Y) (pivot_index (groupby_sum key3 signed_amount df)).
          month_group_sum df (fst ym) (snd ym) ''Revenue'')"
  "sum_list (map p_COGS (filter (\<lambda>p. p_year p = Y) (monthly_pnl df)))
     = (\<Sum>ym\<leftarrow>filter (\<lambda>ym. fst ym = Y) (pivot_index (groupby_sum key3 signed_amount df)).
          month_group_sum df (fst ym) (snd ym) ''COGS'')"
  "sum_list (map p_OPEX (filter (\<lambda>p. p_year p = Y) (monthly_pnl df)))
     = (\<Sum>ym\<leftarrow>filter (\<lambda>ym. fst ym = Y) (pivot_index (groupby_sum key3 signed_amount df)).
          month_group_sum df (fst ym) (snd ym) ''OPEX'')"
  by (simp_all add: monthly_pnl_def Let_def filter_map comp_def pivot_cell_sum_pair)

lemma month_group_sum_absent:
  "\<not> (\<exists>r\<in>set df. year r = Some y \<and> month r = Some m \<and> account_group r = Some a)
   \<Longrightarrow> month_group_sum df y m a = 0"
proof -
  assume "\<not> (\<exists>r\<in>set df. year r = Some y \<and> month r = Some m \<and> account_group r = Some a)"
  then have "filter (\<lambda>r. year r = Some y \<and> month r = Some m \<and> account_group r = Some a) df = []"
    by (simp add: filter_empty_conv)
  then show ?thesis by (simp add: month_group_sum_def nansum_def)
qed

lemma load_tx_group:
  assumes "load_tx raw = Inr tx" and "r \<in> set tx"
  shows "account_group r \<noteq> None"
proof -
  from load_tx_row_origin[OF assms] obtain d s where
    "sign_amt (account_group d) (AMOUNT d) = Inr (Some s)" "r = d\<lparr>signed_amount := Some s\<rparr>"
    by blast
  with sign_amt_Some[of "account_group d" "AMOUNT d" s] show ?thesis by auto
qed

lemma bits_lit:
  "bits 0 = 0"
  "bits (Suc 0) = 1"
  "bits (numeral (Num.Bit0 k)) = bits (numeral k) + 1"
  "bits (numeral (Num.Bit1 k)) = bits (numeral k) + 1"
proof -
  show "bits 0 = 0" by (subst bits.simps) simp
  show "bits (Suc 0) = 1" by (subst bits.simps) simp
  have "numeral (Num.Bit0 k) div 2 = (numeral k :: nat)" by simp
  then show "bits (numeral (Num.Bit0 k)) = bits (numeral k) + 1"
    by (subst bits.simps) (simp del: bits.simps)
  have "numeral (Num.Bit1 k) div 2 = (numeral k :: nat)" by simp
  then show "bits (numeral (Num.Bit1 k)) = bits (numeral k) + 1"
    by (subst bits.simps) (simp del: bits.simps)
qed

lemma f64_round_nonzero:
  "m \<noteq> 0 \<Longrightarrow> f64_round m e =
     (let n = bits (nat \<bar>m\<bar>) in
         if n \<le> 53 then \<lparr>mant = m * 2 ^ (53 - n), expo = e - int (53 - n)\<rparr>
         else
           (let k = n - 53;
                q = \<bar>m\<bar> div 2 ^ k;
                r = \<bar>m\<bar> mod 2 ^ k;
                half = 2 ^ (k - 1);
                q' = (if half < r \<or> (r = half \<and> odd q) then q + 1 else q)
            in if q' = 2 ^ 53 then \<lparr>mant = sgn m * 2 ^ 52, expo = e + int k + 1\<rparr>
               else \<lparr>mant = sgn m * q', expo = e + int k\<rparr>))"
  by (simp add: f64_round_def)

lemma f64_round_0: "f64_round 0 e = \<lparr>mant = 0, expo = 0\<rparr>"
  by (simp add: f64_round_def f64_zero_def)

lemma f64_add_lit:
  "f64_add \<lparr>mant = ma, expo = ea\<rparr> \<lparr>mant = mb, expo = eb\<rparr>
     = f64_round (ma * 2 ^ nat (ea - min ea eb) + mb * 2 ^ nat (eb - min ea eb)) (min ea eb)"
  by (simp add: f64_add_def Let_def)

lemma f64_sub_lit:
  "f64_sub a \<lparr>mant = mb, expo = eb\<rparr> = f64_add a \<lparr>mant = - mb, expo = eb\<rparr>"
  by (simp add: f64_sub_def)

lemma f64_div_lit:
  "f64_div \<lparr>mant = ma, expo = ea\<rparr> \<lparr>mant = mb, expo = eb\<rparr>
     = f64_round (sgn ma * sgn mb
                  * (2 * ((\<bar>ma\<bar> * 2 ^ 56) div \<bar>mb\<bar>)
                     + (if (\<bar>ma\<bar> * 2 ^ 56) mod \<bar>mb\<bar> = 0 then 0 else 1)))
         (ea - eb - 57)"
  by (simp add: f64_div_def Let_def)

lemma kahan_step_lit:
  "kahan_step (s, c) v
     = (f64_add s (f64_sub v c), f64_sub (f64_sub (f64_add s (f64_sub v c)) s) (f64_sub v c))"
  by (simp add: kahan_step_def Let_def)

lemmas f64_eval =
  bits_lit f64_round_nonzero f64_round_0 f64_add_lit f64_sub_lit f64_div_lit kahan_step_lit
  f64_zero_def f64_of_nat_def

lemma kahan_tenth_four:
  "kahan_sum [tenth, four_tenths] = \<lparr>mant = 4503599627370496, expo = - 53\<rparr>"
  by (simp add: kahan_sum_def tenth_def four_tenths_def f64_eval del: bits.simps)

lemma kahan_single: "kahan_sum [two_tenths] = two_tenths"
  by (simp add: kahan_sum_def two_tenths_def f64_eval del: bits.simps)

lemma mean_single:
  "mean_f64 [two_tenths] = two_tenths"
  "mean_f64 [\<lparr>mant = 4503599627370496, expo = - 53\<rparr>] = \<lparr>mant = 4503599627370496, expo = - 53\<rparr>"
  by (simp_all add: mean_f64_def kahan_sum_def two_tenths_def f64_eval del: bits.simps)

lemma tenths_nearest:
  "\<bar>real_of_int (mant tenth) / 2 ^ 56 - 1 / 10\<bar> < 1 / 2 ^ 57"
  "\<bar>real_of_int (mant two_tenths) / 2 ^ 55 - 2 / 10\<bar> < 1 / 2 ^ 56"
  "\<bar>real_of_int (mant four_tenths) / 2 ^ 54 - 4 / 10\<bar> < 1 / 2 ^ 55"
  by (simp_all add: tenth_def two_tenths_def four_tenths_def)

lemma tenths_groups:
  "groupby_sum_f64 f_key3 f_amount tenths_rows
     = [((2024, 1, ''Revenue''), \<lparr>mant = 4503599627370496, expo = - 53\<rparr>),
        ((2024, 2, ''Revenue''), two_tenths)]"
  by (simp add: groupby_sum_f64_def tenths_rows_def f_key3_def List.map_filter_def
      kahan_tenth_four kahan_single)

lemma tenths_monthly_pnl:
  "map (\<lambda>p. (fp_year p, fp_month p, fp_Revenue p)) (monthly_pnl_f64 tenths_rows)
     = [(2024, 1, \<lparr>mant = 4503599627370496, expo = - 53\<rparr>), (2024, 2, two_tenths)]"
  by (simp add: monthly_pnl_f64_def tenths_groups pivot_index_f64_def pivot_cell_f64_def
      mean_single Let_def)

lemma tenths_monthly_revenue:
  "map fp_Revenue (filter (\<lambda>p. fp_year p = 2024) (monthly_pnl_f64 tenths_rows))
     = [\<lparr>mant = 4503599627370496, expo = - 53\<rparr>, two_tenths]"
  by (simp add: monthly_pnl_f64_def tenths_groups pivot_index_f64_def pivot_cell_f64_def
      mean_single Let_def)

lemma tenths_column_total:
  "foldl f64_add f64_zero [\<lparr>mant = 4503599627370496, expo = - 53\<rparr>, two_tenths]
     = \<lparr>mant = 6305039478318694, expo = - 53\<rparr>"
  by (simp add: two_tenths_def f64_eval del: bits.simps)

lemma tenths_one_pass:
  "foldl f64_add f64_zero [tenth, two_tenths, four_tenths]
     = \<lparr>mant = 6305039478318695, expo = - 53\<rparr>"
  by (simp add: tenth_def two_tenths_def four_tenths_def f64_eval del: bits.simps)

text \<open>
  Claim C4 against the code: three Revenue rows of 2024, 0.1 in January, 0.2 in February
  and 0.4 in January. The Revenue column of \<open>monthly_pnl\<close> holds 0.5 for January and 0.2 for
  February and sums to 0.7 (6305039478318694 / 2 ^ 53); the Revenue of \<open>kpis\<close> on the slice
  of 2024 adds 0.1, 0.2 and 0.4 in the order of the rows and is 0.7000000000000001
  (6305039478318695 / 2 ^ 53). The two totals differ in the last binary digit.
\<close>

theorem monthly_pnl_f64_year_total_counterexample:
  "nansum_f64 (map (\<lambda>p. Some (fp_Revenue p))
      (filter (\<lambda>p. fp_year p = 2024) (monthly_pnl_f64 tenths_rows)))
     = \<lparr>mant = 6305039478318694, expo = - 53\<rparr>
   \<and> f_Revenue (kpis_f64 (filter (\<lambda>r. f_year r = Some 2024) tenths_rows))
     = \<lparr>mant = 6305039478318695, expo = - 53\<rparr>
   \<and> nansum_f64 (map (\<lambda>p. Some (fp_Revenue p))
      (filter (\<lambda>p. fp_year p = 2024) (monthly_pnl_f64 tenths_rows)))
     \<noteq> f_Revenue (kpis_f64 (filter (\<lambda>r. f_year r = Some 2024) tenths_rows))"
proof -
  have some_cells:
    "map (\<lambda>x. case x of Some v \<Rightarrow> v | None \<Rightarrow> f64_zero) (map (\<lambda>p. Some (fp_Revenue p)) ps)
       = map fp_Revenue ps" for ps
    by (induction ps) simp_all
  have a: "nansum_f64 (map (\<lambda>p. Some (fp_Revenue p))
      (filter (\<lambda>p. fp_year p = 2024) (monthly_pnl_f64 tenths_rows)))
     = \<lparr>mant = 6305039478318694, expo = - 53\<rparr>"
    by (simp only: nansum_f64_def some_cells tenths_monthly_revenue tenths_column_total)
  have b: "f_Revenue (kpis_f64 (filter (\<lambda>r. f_year r = Some 2024) tenths_rows))
     = \<lparr>mant = 6305039478318695, expo = - 53\<rparr>"
    using tenths_one_pass
    by (simp add: kpis_f64_def group_sum_f64_def nansum_f64_def tenths_rows_def Let_def)
  from a b show ?thesis by simp
qed

text \<open>
  Claim C4 as amended: for every table of rows of the canonical transaction table,
  \<open>monthly_pnl\<close> has one row for each (year, month) that occurs in the table, in ascending
  order; in each row the Revenue, COGS and OPEX columns are the sums of the signed amounts
  of that group in that month (0 when the group does not occur there), Gross Profit is
  Revenue + COGS and EBIT is Gross Profit + OPEX; and, the amounts being added exactly (as
  real numbers, without the rounding of float64), over the rows of one year the Revenue
  column sums to the Revenue of \<open>kpis\<close> on the slice of that year, Revenue and COGS to its
  Gross Profit, and Revenue, COGS and OPEX to its EBIT.
\<close>

theorem monthly_pnl_rows_and_year_totals:
  assumes "load_tx raw = Inr tx" and "set df \<subseteq> set tx"
  shows "sorted (map period_of (monthly_pnl df))
       \<and> distinct (map period_of (monthly_pnl df))
       \<and> set (map period_of (monthly_pnl df))
           = {(y, m). \<exists>r\<in>set df. year r = Some y \<and> month r = Some m}
       \<and> (\<forall>p\<in>set (monthly_pnl df).
            p_Revenue p = month_group_sum df (p_year p) (p_month p) ''Revenue''
          \<and> p_COGS p = month_group_sum df (p_year p) (p_month p) ''COGS''
          \<and> p_OPEX p = month_group_sum df (p_year p) (p_month p) ''OPEX''
          \<and> p_Gross_Profit p = p_Revenue p + p_COGS p
          \<and> p_EBIT p = p_Gross_Profit p + p_OPEX p)
       \<and> (\<forall>y m a. \<not> (\<exists>r\<in>set df. year r = Some y \<and> month r = Some m \<and> account_group r = Some a)
            \<longrightarrow> month_group_sum df y m a = 0)
       \<and> (\<forall>Y. sum_list (map p_Revenue (filter (\<lambda>p. p_year p = Y) (monthly_pnl df)))
                 = Revenue (kpis (filter (\<lambda>r. year r = Some Y) df))
              \<and> sum_list (map p_Revenue (filter (\<lambda>p. p_year p = Y) (monthly_pnl df)))
                + sum_list (map p_COGS (filter (\<lambda>p. p_year p = Y) (monthly_pnl df)))
                 = Gross_Profit (kpis (filter (\<lambda>r. year r = Some Y) df))
              \<and> sum_list (map p_Revenue (filter (\<lambda>p. p_year p = Y) (monthly_pnl df)))
                + sum_list (map p_COGS (filter (\<lambda>p. p_year p = Y) (monthly_pnl df)))
                + sum_list (map p_OPEX (filter (\<lambda>p. p_year p = Y) (monthly_pnl df)))
                 = EBIT (kpis (filter (\<lambda>r. year r = Some Y) df)))"
proof -
  have grp: "account_group r \<noteq> None" if "r \<in> set df" for r
    using load_tx_group[OF assms(1)] assms(2) that by blast
  have mon: "month r \<noteq> None" if "r \<in> set df" "year r = Some Y" for r Y
    using load_tx_month_of_year[OF assms(1), of r Y] assms(2) that by auto
  have s: "sorted (map period_of (monthly_pnl df))" and d: "distinct (map period_of (monthly_pnl df))"
    using pivot_index_sorted by (simp_all add: monthly_pnl_periods)
  have e: "set (map period_of (monthly_pnl df))
           = {(y, m). \<exists>r\<in>set df. year r = Some y \<and> month r = Some m}"
  proof -
    have "(\<exists>a. key3 r = Some (y, m, a)) \<longleftrightarrow> year r = Some y \<and> month r = Some m"
      if "r \<in> set df" for r y m
      using grp[OF that] by (auto simp: key3_eq)
    then show ?thesis
      unfolding monthly_pnl_periods pivot_index_set by blast
  qed
  have r: "\<forall>p\<in>set (monthly_pnl df).
            p_Revenue p = month_group_sum df (p_year p) (p_month p) ''Revenue''
          \<and> p_COGS p = month_group_sum df (p_year p) (p_month p) ''COGS''
          \<and> p_OPEX p = month_group_sum df (p_year p) (p_month p) ''OPEX''
          \<and> p_Gross_Profit p = p_Revenue p + p_COGS p
          \<and> p_EBIT p = p_Gross_Profit p + p_OPEX p"
    using monthly_pnl_row by blast
  have z: "\<forall>y m a. \<not> (\<exists>r\<in>set df. year r = Some y \<and> month r = Some m \<and> account_group r = Some a)
            \<longrightarrow> month_group_sum df y m a = 0"
    using month_group_sum_absent by blast
  have y: "sum_list (map p_Revenue (filter (\<lambda>p. p_year p = Y) (monthly_pnl df)))
                 = Revenue (kpis (filter (\<lambda>r. year r = Some Y) df))
              \<and> sum_list (map p_Revenue (filter (\<lambda>p. p_year p = Y) (monthly_pnl df)))
                + sum_list (map p_COGS (filter (\<lambda>p. p_year p = Y) (monthly_pnl df)))
                 = Gross_Profit (kpis (filter (\<lambda>r. year r = Some Y) df))
              \<and> sum_list (map p_Revenue (filter (\<lambda>p. p_year p = Y) (monthly_pnl df)))
                + sum_list (map p_COGS (filter (\<lambda>p. p_year p = Y) (monthly_pnl df)))
                + sum_list (map p_OPEX (filter (\<lambda>p. p_year p = Y) (monthly_pnl df)))
                 = EBIT (kpis (filter (\<lambda>r. year r = Some Y) df))" for Y
  proof -
    have g: "(\<Sum>ym\<leftarrow>filter (\<lambda>ym. fst ym = Y) (pivot_index (groupby_sum key3 signed_amount df)).
            month_group_sum df (fst ym) (snd ym) a)
         = group_sum a (filter (\<lambda>r. year r = Some Y) df)" for a
      by (rule year_sum_generic) (use mon in blast)
    show ?thesis
      unfolding monthly_pnl_year_col g by (simp add: kpis_def Let_def)
  qed
  from s d e r z y show ?thesis by blast
qed

lemma quarters_groupby:
  "groupby_sum key3 signed_amount quarters_tx
     = [((2023, 2, ''Revenue''), 30), ((2024, 2, ''Revenue''), 10),
        ((2024, 6, ''Revenue''), 50), ((2024, 11, ''Revenue''), 20)]"
  by (simp add: groupby_sum_def quarters_tx_def rev_row_def key3_def List.map_filter_def
      nansum_def)

lemma quarters_monthly_pnl: "monthly_pnl quarters_tx = quarters_pnl"
  by (simp add: monthly_pnl_def quarters_groupby pivot_index_def pivot_cell_def mean_def
      quarters_pnl_def Let_def)

theorem monthly_pnl_rows_and_year_totals_witness:
  "load_tx quarters_raw = Inr quarters_tx
   \<and> monthly_pnl quarters_tx = quarters_pnl
   \<and> sorted (map period_of (monthly_pnl quarters_tx))
   \<and> map period_of quarters_pnl = [(2023, 2), (2024, 2), (2024, 6), (2024, 11)]
   \<and> sum_list (map p_Revenue (filter (\<lambda>p. p_year p = 2024) quarters_pnl)) = 80
   \<and> Revenue (kpis (filter (\<lambda>r. year r = Some 2024) quarters_tx)) = 80"
proof -
  have s: "sorted (map period_of (monthly_pnl quarters_tx))"
    using monthly_pnl_rows_and_year_totals[OF quarters_load subset_refl] by (rule conjunct1)
  have p: "map period_of quarters_pnl = [(2023, 2), (2024, 2), (2024, 6), (2024, 11)]"
    by (simp add: quarters_pnl_def period_of_def)
  have r: "sum_list (map p_Revenue (filter (\<lambda>p. p_year p = 2024) quarters_pnl)) = 80"
    by (simp add: quarters_pnl_def)
  have k: "Revenue (kpis (filter (\<lambda>r. year r = Some 2024) quarters_tx)) = 80"
    by (simp add: kpis_def group_sum_def nansum_def quarters_tx_def rev_row_def)
  from quarters_load quarters_monthly_pnl s p r k show ?thesis by simp
qed

section \<open>Properties of the budget table\<close>

lemma two_month_cols: "norm_cols budget_cols = budget_cols"
  by (simp add: norm_cols_def budget_cols_def strip_def is_space_def)

lemma budget_cols_mem:
  "''DATE'' \<in> set budget_cols" "''REVENUE/EXPENSES'' \<in> set budget_cols"
  "''BUDGET'' \<in> set budget_cols" "''Short_CLASS'' \<notin> set budget_cols"
  "''CLASS'' \<notin> set budget_cols"
  by (simp_all add: budget_cols_def)

lemma two_month_rows:
  "b_group budget_cols jan_budget = Some ''Revenue''"
  "b_group budget_cols feb_budget = Some ''Revenue''"
  "b_budget budget_cols jan_budget = Some 100"
  "b_budget budget_cols feb_budget = Some 200"
  "b_date budget_cols jan_budget = Some \<lparr>ts_year = 2024, ts_month = Jan\<rparr>"
  "b_date budget_cols feb_budget = Some \<lparr>ts_year = 2024, ts_month = Feb\<rparr>"
  by (simp_all add: b_group_def b_budget_def b_date_def budget_cols_mem jan_budget_def
      feb_budget_def infer_examples)

lemma two_month_keys:
  "b_key budget_cols jan_budget = Some (2024, ''Revenue'')"
  "b_key budget_cols feb_budget = Some (2024, ''Revenue'')"
  "b_key_month budget_cols jan_budget = Some (2024, 1, ''Revenue'')"
  "b_key_month budget_cols feb_budget = Some (2024, 2, ''Revenue'')"
  by (simp_all add: b_key_def b_key_month_def two_month_rows dt_year_def dt_month_def)

lemma two_month_load:
  "load_bd (Some two_month_budget)
     = [\<lparr> bd_year = 2024, bd_month = None, bd_group = ''Revenue'', budget_amount = 300 \<rparr>]"
  by (simp add: load_bd_def two_month_budget_def two_month_cols two_month_rows two_month_keys
      groupby_sum_def List.map_filter_def nansum_def mk_bd_row_def)

lemma two_month_spec:
  "budget_by_month_spec two_month_budget
     = [\<lparr> bd_year = 2024, bd_month = Some 1, bd_group = ''Revenue'', budget_amount = 100 \<rparr>,
        \<lparr> bd_year = 2024, bd_month = Some 2, bd_group = ''Revenue'', budget_amount = 200 \<rparr>]"
  by (simp add: budget_by_month_spec_def two_month_budget_def two_month_cols two_month_rows
      two_month_keys groupby_sum_def List.map_filter_def nansum_def mk_bd_row_month_def)

text \<open>
  Claim C6, as stated, fails: \<open>load_all\<close> never groups the budget by month. Two budget rows
  of January and February 2024 for Revenue become one row of the year 2024 with their sum,
  where grouping by month as well would keep two rows.
\<close>

theorem load_bd_month_counterexample:
  "load_bd (Some two_month_budget)
     = [\<lparr> bd_year = 2024, bd_month = None, bd_group = ''Revenue'', budget_amount = 300 \<rparr>]
   \<and> budget_by_month_spec two_month_budget
     = [\<lparr> bd_year = 2024, bd_month = Some 1, bd_group = ''Revenue'', budget_amount = 100 \<rparr>,
        \<lparr> bd_year = 2024, bd_month = Some 2, bd_group = ''Revenue'', budget_amount = 200 \<rparr>]
   \<and> load_bd (Some two_month_budget) \<noteq> budget_by_month_spec two_month_budget"
  by (simp add: two_month_load two_month_spec)

lemma infer_group_cases:
  "infer_group a b c \<in> set [None, Some ''Revenue'', Some ''COGS'', Some ''OPEX'']"
  by (simp add: infer_group_def Let_def)

lemma infer_group_range:
  "infer_group a b c = Some g \<Longrightarrow> g \<in> set [''Revenue'', ''COGS'', ''OPEX'']"
  using infer_group_cases[of a b c] by auto

lemma groupby_member:
  "(k, v) \<in> set (groupby_sum key val rs) \<Longrightarrow> v = nansum (map val (filter (\<lambda>r. key r = Some k) rs))"
  by (auto simp: groupby_sum_def)

lemma b_key_eq:
  "b_key cols x = Some (y, g) \<longleftrightarrow> dt_year (b_date cols x) = Some y \<and> b_group cols x = Some g"
  by (auto simp: b_key_def split: option.splits)

text \<open>
  Claim C6, amended: the budget table groups the classified budget rows by (year,
  account\_group) only, in ascending order of that pair, one row for each pair that occurs;
  no row has a month, so the combinations (year, month-or-none, account\_group) are unique;
  and each budget amount is the sum (NaN skipped) of the raw amounts of its year and group.
  Without a budget file the table is empty.
\<close>

theorem load_bd_groups_by_year_and_group:
  "load_bd None = []
   \<and> distinct (map bd_key (load_bd (Some b)))
   \<and> sorted (map (\<lambda>r. (bd_year r, bd_group r)) (load_bd (Some b)))
   \<and> set (map (\<lambda>r. (bd_year r, bd_group r)) (load_bd (Some b)))
       = {(y, g). \<exists>x\<in>set (bd_rows b).
            dt_year (b_date (norm_cols (bd_columns b)) x) = Some y
            \<and> b_group (norm_cols (bd_columns b)) x = Some g}
   \<and> (\<forall>r\<in>set (load_bd (Some b)).
         bd_month r = None
         \<and> bd_group r \<in> set [''Revenue'', ''COGS'', ''OPEX'']
         \<and> budget_amount r
             = nansum (map (b_budget (norm_cols (bd_columns b)))
                 (filter (\<lambda>x. dt_year (b_date (norm_cols (bd_columns b)) x) = Some (bd_year r)
                             \<and> b_group (norm_cols (bd_columns b)) x = Some (bd_group r))
                    (bd_rows b))))"
proof -
  let ?cols = "norm_cols (bd_columns b)"
  let ?rs = "filter (\<lambda>r. b_group ?cols r \<noteq> None) (bd_rows b)"
  let ?g = "groupby_sum (b_key ?cols) (b_budget ?cols) ?rs"
  have l: "load_bd (Some b) = map mk_bd_row ?g" by (simp add: load_bd_def Let_def)
  have k: "map (\<lambda>r. (bd_year r, bd_group r)) (load_bd (Some b)) = map fst ?g"
    unfolding l by (simp add: mk_bd_row_def comp_def)
  have ks: "set (map fst ?g) = {(y, g). \<exists>x\<in>set (bd_rows b).
            dt_year (b_date ?cols x) = Some y \<and> b_group ?cols x = Some g}"
    unfolding groupby_keys_set by (auto simp: b_key_eq)
  have d: "distinct (map bd_key (load_bd (Some b)))"
  proof -
    have m: "map bd_key (load_bd (Some b)) = map (\<lambda>k. (fst k, None, snd k)) (map fst ?g)"
      unfolding l by (simp add: mk_bd_row_def bd_key_def comp_def)
    have i: "inj_on (\<lambda>k :: int \<times> string. (fst k, None :: int option, snd k)) (set (map fst ?g))"
      by (rule inj_onI) (simp add: prod_eq_iff)
    have dk: "distinct (map fst ?g)" by (rule groupby_keys_distinct)
    show ?thesis
      unfolding m by (rule iffD2[OF distinct_map]) (rule conjI[OF dk i])
  qed
  have s: "sorted (map (\<lambda>r. (bd_year r, bd_group r)) (load_bd (Some b)))"
    unfolding k groupby_keys by simp
  have r: "bd_month r = None \<and> bd_group r \<in> set [''Revenue'', ''COGS'', ''OPEX'']
         \<and> budget_amount r
             = nansum (map (b_budget ?cols)
                 (filter (\<lambda>x. dt_year (b_date ?cols x) = Some (bd_year r)
                             \<and> b_group ?cols x = Some (bd_group r)) (bd_rows b)))"
    if "r \<in> set (load_bd (Some b))" for r
  proof -
    from that obtain kv where kv: "kv \<in> set ?g" "r = mk_bd_row kv" unfolding l by auto
    obtain y g v where e: "kv = ((y, g), v)" by (cases kv) auto
    from kv(1) e have v: "v = nansum (map (b_budget ?cols) (filter (\<lambda>x. b_key ?cols x = Some (y, g)) ?rs))"
      using groupby_member by fastforce
    have f: "filter (\<lambda>x. b_key ?cols x = Some (y, g)) ?rs
             = filter (\<lambda>x. dt_year (b_date ?cols x) = Some y \<and> b_group ?cols x = Some g) (bd_rows b)"
      by (auto simp: b_key_eq intro: filter_cong)
    from kv(1) e have "(y, g) \<in> set (map fst ?g)" by force
    then obtain x where "b_group ?cols x = Some g" unfolding ks by auto
    then have g: "g \<in> set [''Revenue'', ''COGS'', ''OPEX'']"
      unfolding b_group_def by (rule infer_group_range)
    from kv(2) e v f g show ?thesis by (simp add: mk_bd_row_def)
  qed
  from d s k ks r show ?thesis by (simp add: load_bd_def)
qed

theorem load_bd_groups_by_year_and_group_witness:
  "load_bd (Some two_month_budget)
     = [\<lparr> bd_year = 2024, bd_month = None, bd_group = ''Revenue'', budget_amount = 300 \<rparr>]
   \<and> distinct (map bd_key (load_bd (Some two_month_budget)))"
proof -
  have "distinct (map bd_key (load_bd (Some two_month_budget)))"
    using load_bd_groups_by_year_and_group[of two_month_budget] by blast
  with two_month_load show ?thesis by simp
qed

section \<open>Properties of the statement of profit and loss\<close>

lemma pl_cols: "norm_cols pl_columns = pl_columns"
  by (simp add: norm_cols_def pl_columns_def strip_def is_space_def)

lemma pl_cols_mem:
  "''Date'' \<in> set pl_columns" "''AMOUNT'' \<in> set pl_columns"
  "''REVENUE/EXPENSES'' \<in> set pl_columns" "''Short_CLASS'' \<in> set pl_columns"
  "''CLASS'' \<notin> set pl_columns"
  by (simp_all add: pl_columns_def)

lemma pl_derive:
  "sign_row (derive_row pl_columns sales_raw) = Inr sales_tx"
  "sign_row (derive_row pl_columns materials_raw) = Inr materials_tx"
  "sign_row (derive_row pl_columns rent_raw) = Inr rent_tx"
  by (simp_all add: derive_row_def sign_row_def sign_amt_def py_abs_def pl_cols_mem
      sales_raw_def materials_raw_def rent_raw_def sales_tx_def materials_tx_def rent_tx_def
      infer_examples dt_year_def dt_month_def jan24_def)

lemma pl_load: "load_tx pl_raw = Inr pl_tx"
  by (simp add: load_tx_def pl_raw_def pl_cols pl_cols_mem pl_derive dropna_signed_def pl_tx_def)
     (simp add: sales_tx_def materials_tx_def rent_tx_def)

lemma pl_fields:
  "account_group sales_tx = Some ''Revenue''" "account_group materials_tx = Some ''COGS''"
  "account_group rent_tx = Some ''OPEX''"
  "signed_amount sales_tx = Some 1000" "signed_amount materials_tx = Some (- 400)"
  "signed_amount rent_tx = Some (- 200)"
  "ACCOUNT sales_tx = Some ''Sales''" "ACCOUNT materials_tx = Some ''Materials''"
  "ACCOUNT rent_tx = Some ''Rent''"
  "Short_CLASS sales_tx = ''''" "Short_CLASS materials_tx = ''COS''"
  "Short_CLASS rent_tx = ''G&A''"
  by (simp_all add: sales_tx_def materials_tx_def rent_tx_def)

lemma pl_sections:
  "section_rows pl_tx ''Revenue'' = ([(''Sales'', 1000)], 1000)"
  "section_rows pl_tx ''COGS'' = ([(''Materials'', - 400)], - 400)"
  "section_rows pl_tx ''OPEX'' = ([(''Rent'', - 200)], - 200)"
  by (simp_all add: section_rows_def pl_tx_def pl_fields line_rows_def by_account_def
      account_keys_def List.map_filter_def nansum_def)

lemma pl_other:
  "filter (\<lambda>r. contains (lower (Short_CLASS r)) ''other income'') pl_tx = []"
  by (simp add: pl_tx_def pl_fields lower_def lower_char_def startswith_def)

text \<open>
  Claim C5 against the code: on the canonical table of one Revenue row of 1000, one COGS row of
  400 and one OPEX row of 200 the subtotals are 1000, -400 and -200. Gross Profit should be
  the Revenue subtotal minus the magnitude of the COGS subtotal, 600, as \<open>kpis\<close> has it; the
  statement subtracts the signed (negative) subtotal and shows 1400. Net Profit should be
  400 and is 1600.
\<close>

theorem build_pl_failing_input:
  "rev_total (build_pl pl_tx) = 1000
   \<and> cogs_total (build_pl pl_tx) = - 400
   \<and> opex_total (build_pl pl_tx) = - 200
   \<and> other_total (build_pl pl_tx) = 0
   \<and> gross_profit (build_pl pl_tx) = 1400
   \<and> rev_total (build_pl pl_tx) - \<bar>cogs_total (build_pl pl_tx)\<bar> = 600
   \<and> net_profit (build_pl pl_tx) = 1600
   \<and> rev_total (build_pl pl_tx) - \<bar>cogs_total (build_pl pl_tx)\<bar>
       + other_total (build_pl pl_tx) - \<bar>opex_total (build_pl pl_tx)\<bar> = 400
   \<and> Gross_Profit (kpis pl_tx) = 600
   \<and> EBIT (kpis pl_tx) = 400"
  by (simp add: build_pl_def pl_sections pl_other)
     (simp add: kpis_def group_sum_def nansum_def pl_tx_def pl_fields)

lemma sum_snd_sort_key:
  "sum_list (map snd (sort_key k xs)) = (sum_list (map snd xs) :: real)"
proof -
  have "mset (map snd (sort_key k xs)) = mset (map snd xs)" by simp
  then show ?thesis by (metis sum_mset_sum_list)
qed

lemma line_rows_total: "sum_list (map snd (line_rows bl)) = sum_list (map snd bl)"
  by (simp add: line_rows_def comp_def sum_snd_sort_key)

lemma account_keys_distinct: "distinct (account_keys keep_na part)"
  by (auto simp: account_keys_def distinct_map)

lemma account_keys_all: "set (account_keys True part) = set (map ACCOUNT part)"
proof (intro set_eqI iffI)
  fix k assume "k \<in> set (account_keys True part)"
  then show "k \<in> set (map ACCOUNT part)"
    by (force simp: account_keys_def map_filter_set split: if_splits)
next
  fix k assume k: "k \<in> set (map ACCOUNT part)"
  show "k \<in> set (account_keys True part)"
  proof (cases k)
    case None
    with k show ?thesis by (simp add: account_keys_def)
  next
    case (Some a)
    with k have "a \<in> set (List.map_filter ACCOUNT part)"
      unfolding map_filter_set by (auto simp: image_iff)
    with Some show ?thesis by (simp add: account_keys_def)
  qed
qed

lemma by_account_total:
  "sum_list (map snd (by_account True part)) = nansum (map signed_amount part)"
proof -
  have "sum_list (map snd (by_account True part))
          = (\<Sum>k\<leftarrow>account_keys True part.
               sum_list (map amount_or_zero (filter (\<lambda>r. Some (ACCOUNT r) = Some k) part)))"
    by (simp add: by_account_def comp_def nansum_signed)
  also have "\<dots> = sum_list (map amount_or_zero
                      (filter (\<lambda>r. \<exists>k\<in>set (account_keys True part). Some (ACCOUNT r) = Some k) part))"
    by (rule sum_over_keys[OF account_keys_distinct])
  also have "\<dots> = sum_list (map amount_or_zero part)"
    by (rule arg_cong[where f = "\<lambda>xs. sum_list (map amount_or_zero xs)"])
       (simp add: account_keys_all filter_id_conv)
  finally show ?thesis by (simp add: nansum_signed)
qed

lemma section_total: "snd (section_rows df g) = group_sum g df"
  by (simp add: section_rows_def Let_def line_rows_total by_account_total group_sum_def nansum_def)

text \<open>
  In general each section subtotal is the sum of the signed amounts of its group, and the
  statement subtracts the signed COGS and OPEX subtotals.
\<close>

lemma build_pl_totals:
  "rev_total (build_pl S) = group_sum ''Revenue'' S
   \<and> cogs_total (build_pl S) = group_sum ''COGS'' S
   \<and> opex_total (build_pl S) = group_sum ''OPEX'' S
   \<and> gross_profit (build_pl S) = rev_total (build_pl S) - cogs_total (build_pl S)
   \<and> net_profit (build_pl S)
       = gross_profit (build_pl S) + other_total (build_pl S) - opex_total (build_pl S)"
  using section_total[of S "''Revenue''"] section_total[of S "''COGS''"]
        section_total[of S "''OPEX''"]
  by (auto simp: build_pl_def Let_def split: prod.splits)

section \<open>Properties of the ratios\<close>





lemma cogs_only_sums:
  "is_zero (total_budget_cogs zero_budget)"
  "is_zero (total_budget zero_budget)"
  "is_zero (f_Revenue (kpis_f64 cogs_only))"
  "is_zero (prev_sum cogs_only 2024 [1])"
  "is_zero (budget_val zero_budget (Some 2024) [1])"
  "group_sum_f64 ''COGS'' cogs_only = \<lparr>mant = - 7036874417766400, expo = - 44\<rparr>"
  by (simp_all add: total_budget_cogs_def total_budget_def zero_budget_def kpis_f64_def
      group_sum_f64_def nansum_f64_def cogs_only_def prev_sum_def rev_slice_def budget_val_def
      groupby_sum_f64_def List.map_filter_def kahan_sum_def is_zero_def f64_mul_def
      f64_eval Let_def del: bits.simps)


text \<open>With a COGS budget of 800 the spend of 400 is 50 per cent of it.\<close>

lemma budget_util_pct_half:
  "budget_util_pct cogs_only cogs_budget_800 = Some \<lparr>mant = 7036874417766400, expo = - 47\<rparr>"
  by (simp add: budget_util_pct_def total_budget_cogs_def cogs_budget_800_def cogs_only_sums
      nansum_f64_def truediv_def is_zero_def f64_mul_def f64_abs_def f64_eval del: bits.simps)

end
